theory Spec2Isabelle
  imports Complex_Main "HOL-Library.Sublist" "HOL-Library.Multiset"
begin

section \<open>The workflow assistant route (app/api/langchain/assistant/route.ts)\<close>

text \<open>
  A shallow embedding of the agent orchestration route: role normalisation, plan extraction
  from the model's text, the context digest, the action catalogue with its argument
  schemas and handlers, the plan executor with its checklist gate, and the request
  pipeline. Remote services (the workflow backend, the identity endpoint, the language
  model) are parameters of the model: a record of functions over an abstract world,
  threaded through every call together with the list of calls made so far.
\<close>

subsection \<open>JavaScript strings\<close>

text \<open>
  A string is a list of 8-bit characters (the bytes of its UTF-8 text). Case mapping acts
  on the ASCII letters and white space is the ASCII white space; on text outside ASCII the
  JavaScript built-ins know more letters and more blanks than this model.
\<close>

definition toUpperChar :: "char \<Rightarrow> char" where
  "toUpperChar c =
     (case map_of (zip ''abcdefghijklmnopqrstuvwxyz'' ''ABCDEFGHIJKLMNOPQRSTUVWXYZ'') c of
        Some u \<Rightarrow> u | None \<Rightarrow> c)"

definition toLowerChar :: "char \<Rightarrow> char" where
  "toLowerChar c =
     (case map_of (zip ''ABCDEFGHIJKLMNOPQRSTUVWXYZ'' ''abcdefghijklmnopqrstuvwxyz'') c of
        Some l \<Rightarrow> l | None \<Rightarrow> c)"

definition toUpperCase :: "string \<Rightarrow> string" where
  "toUpperCase s = map toUpperChar s"

definition toLowerCase :: "string \<Rightarrow> string" where
  "toLowerCase s = map toLowerChar s"

definition isWhiteSpace :: "char \<Rightarrow> bool" where
  "isWhiteSpace c \<longleftrightarrow> c \<in> set [CHR 0x09, CHR 0x0A, CHR 0x0B, CHR 0x0C, CHR 0x0D, CHR 0x20]"

definition trim :: "string \<Rightarrow> string" where
  "trim s = rev (dropWhile isWhiteSpace (rev (dropWhile isWhiteSpace s)))"

text \<open>\<open>findIndex P s\<close> is the least position whose remaining text satisfies \<open>P\<close>;
  \<open>findLastIndex\<close> the greatest. JavaScript answers \<open>-1\<close> where these answer \<open>None\<close>.\<close>

primrec findIndex :: "('a list \<Rightarrow> bool) \<Rightarrow> 'a list \<Rightarrow> nat option" where
  "findIndex P [] = None"
| "findIndex P (x # xs) = (if P (x # xs) then Some 0 else map_option Suc (findIndex P xs))"

primrec findLastIndex :: "('a list \<Rightarrow> bool) \<Rightarrow> 'a list \<Rightarrow> nat option" where
  "findLastIndex P [] = None"
| "findLastIndex P (x # xs) =
     (case findLastIndex P xs of
        Some i \<Rightarrow> Some (Suc i)
      | None \<Rightarrow> if P (x # xs) then Some 0 else None)"

definition indexOf :: "string \<Rightarrow> string \<Rightarrow> nat option" where
  "indexOf pat s = findIndex (prefix pat) s"

definition lastIndexOf :: "string \<Rightarrow> string \<Rightarrow> nat option" where
  "lastIndexOf pat s = findLastIndex (prefix pat) s"

definition slice :: "nat \<Rightarrow> nat \<Rightarrow> 'a list \<Rightarrow> 'a list" where
  "slice i j s = take (j - i) (drop i s)"

fun join :: "string \<Rightarrow> string list \<Rightarrow> string" where
  "join sep [] = []"
| "join sep [s] = s"
| "join sep (s # t # ss) = s @ sep @ join sep (t # ss)"

text \<open>Decimal rendering of an integral number, as a template string prints it.\<close>

definition digitChar :: "nat \<Rightarrow> char" where
  "digitChar d = ''0123456789'' ! d"

function showNat :: "nat \<Rightarrow> string" where
  "showNat n = (if n < 10 then [digitChar n] else showNat (n div 10) @ [digitChar (n mod 10)])"
  by pat_completeness auto
termination
  by (relation "measure id") auto

declare showNat.simps [simp del]

definition showInt :: "int \<Rightarrow> string" where
  "showInt i = (if i < 0 then CHR ''-'' # showNat (nat (- i)) else showNat (nat i))"

subsection \<open>Roles\<close>

text \<open>
  \<^verbatim>\<open>roles.map((role) => role.replace(/^ROLE_/, '').toUpperCase())
       .filter((role) => role === 'OPERATOR' || role === 'SUPERVISOR')\<close>, collected in a
  \<^verbatim>\<open>Set\<close>. A role is the string it is at run time.
\<close>

definition stripRolePrefix :: "string \<Rightarrow> string" where
  "stripRolePrefix role = (if prefix ''ROLE_'' role then drop 5 role else role)"

definition isRole :: "string \<Rightarrow> bool" where
  "isRole role \<longleftrightarrow> role = ''OPERATOR'' \<or> role = ''SUPERVISOR''"

definition normalizeRoles :: "string list \<Rightarrow> string set" where
  "normalizeRoles roles =
     set (filter isRole (map (\<lambda>role. toUpperCase (stripRolePrefix role)) roles))"

subsection \<open>Extracting the plan's JSON text\<close>

text \<open>
  The regular expression \<^verbatim>\<open>/```json([\s\S]*?)```/i\<close>: the leftmost opening fence,
  compared without regard to case, then the shortest text up to a closing fence. When the
  leftmost opening has no closing fence after it, no later opening has one either.
\<close>

definition fenceOpen :: string where
  "fenceOpen = [CHR 0x60, CHR 0x60, CHR 0x60, CHR ''j'', CHR ''s'', CHR ''o'', CHR ''n'']"

definition fenceClose :: string where
  "fenceClose = [CHR 0x60, CHR 0x60, CHR 0x60]"

definition startsWithCI :: "string \<Rightarrow> string \<Rightarrow> bool" where
  "startsWithCI pat s \<longleftrightarrow>
     length pat \<le> length s \<and> toLowerCase (take (length pat) s) = toLowerCase pat"

definition codeFenceMatch :: "string \<Rightarrow> string option" where
  "codeFenceMatch trimmed =
     (case findIndex (startsWithCI fenceOpen) trimmed of
        None \<Rightarrow> None
      | Some i \<Rightarrow>
          (let rest = drop (i + length fenceOpen) trimmed in
           case indexOf fenceClose rest of
             None \<Rightarrow> None
           | Some j \<Rightarrow> Some (take j rest)))"

definition extractJson :: "string \<Rightarrow> string option" where
  "extractJson text =
     (let trimmed = trim text in
      case codeFenceMatch trimmed of
        Some body \<Rightarrow> Some (trim body)
      | None \<Rightarrow>
          (case (indexOf ''{'' trimmed, lastIndexOf ''}'' trimmed) of
             (Some start, Some end) \<Rightarrow>
               if end \<le> start then None else Some (slice start (end + 1) trimmed)
           | _ \<Rightarrow> None))"

subsection \<open>The workflow service's data (types/api.ts)\<close>

datatype stage_type = PREPARATION | ASSEMBLY | DELIVERY

datatype stage_state =
  BLOCKED | PENDING | IN_PROGRESS | COMPLETED | EXCEPTION | SKIPPED | REWORK

fun stageName :: "stage_type \<Rightarrow> string" where
  "stageName PREPARATION = ''PREPARATION''"
| "stageName ASSEMBLY = ''ASSEMBLY''"
| "stageName DELIVERY = ''DELIVERY''"

fun stateName :: "stage_state \<Rightarrow> string" where
  "stateName BLOCKED = ''BLOCKED''"
| "stateName PENDING = ''PENDING''"
| "stateName IN_PROGRESS = ''IN_PROGRESS''"
| "stateName COMPLETED = ''COMPLETED''"
| "stateName EXCEPTION = ''EXCEPTION''"
| "stateName SKIPPED = ''SKIPPED''"
| "stateName REWORK = ''REWORK''"

record checklist_item =
  item_id :: string
  item_label :: string
  item_required :: bool
  item_completed :: bool

record order_stage_status =
  ss_id :: int
  ss_stage :: stage_type
  ss_state :: stage_state
  ss_assignee :: "string option"
  ss_claimedAt :: "string option"
  ss_startedAt :: "string option"
  ss_completedAt :: "string option"
  ss_serviceTimeMinutes :: "int option"
  ss_notes :: "string option"
  ss_exceptionReason :: "string option"
  ss_supervisorNotes :: "string option"
  ss_approvedBy :: "string option"
  ss_updatedAt :: "string option"
  ss_checklist :: "checklist_item list"

record order_response =
  o_id :: int
  o_orderNumber :: string
  o_priority :: "int option"
  o_currentStage :: stage_type
  o_overallState :: stage_state
  o_createdAt :: string
  o_updatedAt :: string
  o_notes :: "string option"
  o_stages :: "order_stage_status list"

record user_profile =
  p_username :: string
  p_roles :: "string list"

definition STAGE_ORDER :: "stage_type list" where
  "STAGE_ORDER = [PREPARATION, ASSEMBLY, DELIVERY]"

definition STAGE_STATES :: "stage_state list" where
  "STAGE_STATES = [BLOCKED, PENDING, IN_PROGRESS, COMPLETED, EXCEPTION, SKIPPED, REWORK]"

definition STAGE_RANK :: "stage_type \<rightharpoonup> nat" where
  "STAGE_RANK = map_of (zip STAGE_ORDER [0 ..< length STAGE_ORDER])"

definition MAX_SAFE_INTEGER :: int where
  "MAX_SAFE_INTEGER = 9007199254740991"

definition MAX_CONTEXT_ORDERS :: nat where
  "MAX_CONTEXT_ORDERS = 10"

definition ACTION_NAMES :: "string list" where
  "ACTION_NAMES =
     [''list_orders'', ''get_order_details'', ''list_stage_checklist'', ''create_order'',
      ''update_order_priority'', ''claim_stage'', ''update_stage_checklist'',
      ''complete_stage'', ''flag_stage_exception'', ''approve_stage_skip'']"

text \<open>A string or null in a condition: null and the empty string are falsy.\<close>

fun truthy :: "string option \<Rightarrow> bool" where
  "truthy None = False"
| "truthy (Some s) = (s \<noteq> [])"

subsection \<open>Sorting with a comparator\<close>

text \<open>
  A number that may be NaN is an \<open>int option\<close>, \<open>None\<close> for NaN; a difference is NaN when
  one of its operands is.
\<close>

definition minusNumber :: "int option \<Rightarrow> int option \<Rightarrow> int option" where
  "minusNumber x y = (case (x, y) of (Some m, Some n) \<Rightarrow> Some (m - n) | _ \<Rightarrow> None)"

text \<open>
  \<^verbatim>\<open>Array.prototype.sort(compare)\<close> is stable and reads a NaN answer of the comparator
  as 0. For a consistent comparator its result is the one stable sorted arrangement, which
  insertion from the right computes. A comparator that answers NaN for some pairs need
  not be consistent; the language then leaves the arrangement to the engine, and
  insertion from the right stands for it.
\<close>

definition sortCompare :: "('a \<Rightarrow> 'a \<Rightarrow> int option) \<Rightarrow> 'a \<Rightarrow> 'a \<Rightarrow> int" where
  "sortCompare cmp x y = (case cmp x y of None \<Rightarrow> 0 | Some v \<Rightarrow> v)"

fun insertSorted :: "('a \<Rightarrow> 'a \<Rightarrow> int option) \<Rightarrow> 'a \<Rightarrow> 'a list \<Rightarrow> 'a list" where
  "insertSorted cmp x [] = [x]"
| "insertSorted cmp x (y # ys) =
     (if sortCompare cmp x y \<le> 0 then x # y # ys else y # insertSorted cmp x ys)"

definition sortArray :: "('a \<Rightarrow> 'a \<Rightarrow> int option) \<Rightarrow> 'a list \<Rightarrow> 'a list" where
  "sortArray cmp xs = foldr (insertSorted cmp) xs []"

subsection \<open>The context digest\<close>

definition rankStage :: "stage_type \<Rightarrow> int" where
  "rankStage stage = (case STAGE_RANK stage of Some r \<Rightarrow> int r | None \<Rightarrow> MAX_SAFE_INTEGER)"

definition formatStage :: "order_stage_status \<Rightarrow> string" where
  "formatStage stage =
     (let parts =
        [Some (toLowerCase (stageName (ss_stage stage)) @ '': '' @
               toLowerCase (stateName (ss_state stage))),
         if truthy (ss_assignee stage) then Some (''assignee '' @ the (ss_assignee stage)) else None,
         if truthy (ss_exceptionReason stage)
           then Some (''exception '' @ the (ss_exceptionReason stage)) else None,
         if truthy (ss_notes stage) then Some (''notes '' @ the (ss_notes stage)) else None]
      in join '' | '' (filter (\<lambda>p. p \<noteq> []) (List.map_filter (\<lambda>p. p) parts)))"

definition priorityText :: "int option \<Rightarrow> string" where
  "priorityText p = (case p of None \<Rightarrow> ''n/a'' | Some n \<Rightarrow> showInt n)"

definition sortedStages :: "order_response \<Rightarrow> order_stage_status list" where
  "sortedStages order =
     sortArray (\<lambda>a b. Some (rankStage (ss_stage a) - rankStage (ss_stage b))) (o_stages order)"

definition formatOrder :: "order_response \<Rightarrow> string" where
  "formatOrder order =
     (let header =
        ''Order '' @ o_orderNumber order @ '' (id='' @ showInt (o_id order) @ '') priority '' @
        priorityText (o_priority order) @ '' - current stage '' @
        toLowerCase (stageName (o_currentStage order)) @ '' / overall '' @
        toLowerCase (stateName (o_overallState order));
        stageSummaries = join ''; '' (map formatStage (sortedStages order))
      in header @ ''. Stage details: '' @
         (if stageSummaries \<noteq> [] then stageSummaries else ''no recorded stages.''))"

text \<open>
  \<open>getTime\<close> stands for \<^verbatim>\<open>new Date(s).getTime()\<close> on the service's timestamps, in
  milliseconds, and is NaN on a text that is no date. The priorities are integers, so
  their difference is never NaN; the difference of the dates is.
\<close>

definition orderPriority :: "order_response \<Rightarrow> int" where
  "orderPriority a = (case o_priority a of Some p \<Rightarrow> p | None \<Rightarrow> 0)"

definition orderDate :: "(string \<Rightarrow> int option) \<Rightarrow> order_response \<Rightarrow> int option" where
  "orderDate getTime a = (if o_createdAt a \<noteq> [] then getTime (o_createdAt a) else Some 0)"

definition compareOrders ::
  "(string \<Rightarrow> int option) \<Rightarrow> order_response \<Rightarrow> order_response \<Rightarrow> int option" where
  "compareOrders getTime a b =
     (let priorityDiff = orderPriority b - orderPriority a in
      if priorityDiff \<noteq> 0 then Some priorityDiff
      else (let dateA = orderDate getTime a; dateB = orderDate getTime b
            in minusNumber dateB dateA))"

definition limitedOrders ::
  "(string \<Rightarrow> int option) \<Rightarrow> order_response list \<Rightarrow> order_response list" where
  "limitedOrders getTime orders = take MAX_CONTEXT_ORDERS (sortArray (compareOrders getTime) orders)"

definition contextSummaryOf :: "(string \<Rightarrow> int option) \<Rightarrow> order_response list \<Rightarrow> string" where
  "contextSummaryOf getTime orders =
     (if orders = [] then ''No orders are currently available to the signed-in user.''
      else (let limited = limitedOrders getTime orders in
        ''Total orders available: '' @ showNat (length orders) @ ''. Showing top '' @
        showNat (length limited) @ '' by priority and creation.'' @ [CHR 0x0A] @
        join [CHR 0x0A] (map formatOrder limited)))"

subsection \<open>JSON values and the argument schemas\<close>

text \<open>
  The argument bag of a planned action is whatever JSON the model wrote. A number is a
  rational (every finite double is one); an object is its list of members, read by key.
\<close>

datatype json =
  JNull | JBool bool | JNum rat | JStr string | JArr "json list" | JObj "(string \<times> json) list"

text \<open>
  The schemas are built with the zod library. A schema's \<^verbatim>\<open>safeParse\<close> answers either
  the typed value or the issues found, each with the path of the offending member and a
  code; the issues of all members are collected. \<open>None\<close> for a member is JavaScript's
  \<^verbatim>\<open>undefined\<close>: the member is absent. An object schema keeps the members it declares
  and drops the others.
\<close>

datatype zod_issue = ZodIssue "string list" string

type_synonym 'a parsed = "zod_issue list + 'a"

fun zap :: "('a \<Rightarrow> 'b) parsed \<Rightarrow> 'a parsed \<Rightarrow> 'b parsed" where
  "zap (Inr f) (Inr x) = Inr (f x)"
| "zap (Inr f) (Inl e) = Inl e"
| "zap (Inl e) (Inr x) = Inl e"
| "zap (Inl e) (Inl e') = Inl (e @ e')"

definition isInteger :: "rat \<Rightarrow> bool" where
  "isInteger q \<longleftrightarrow> of_int \<lfloor>q\<rfloor> = q"

definition failedChecks :: "('a \<Rightarrow> bool) list \<Rightarrow> string list \<Rightarrow> string list \<Rightarrow> 'a \<Rightarrow> zod_issue list" where
  "failedChecks checks codes path x =
     map (\<lambda>(ok, code). ZodIssue path code) (filter (\<lambda>(ok, code). \<not> ok x) (zip checks codes))"

text \<open>\<^verbatim>\<open>z.number().int()\<close> followed by bounds: every failed check adds its issue.\<close>

definition zInt :: "(rat \<Rightarrow> bool) list \<Rightarrow> string list \<Rightarrow> string list \<Rightarrow> json option \<Rightarrow> int parsed" where
  "zInt checks codes path v =
     (case v of
        Some (JNum q) \<Rightarrow>
          (let issues = failedChecks (isInteger # checks) (''invalid_type'' # codes) path q in
           if issues = [] then Inr \<lfloor>q\<rfloor> else Inl issues)
      | _ \<Rightarrow> Inl [ZodIssue path ''invalid_type''])"

definition zString :: "(string \<Rightarrow> bool) list \<Rightarrow> string list \<Rightarrow> string list \<Rightarrow> json option \<Rightarrow> string parsed" where
  "zString checks codes path v =
     (case v of
        Some (JStr s) \<Rightarrow>
          (let issues = failedChecks checks codes path s in
           if issues = [] then Inr s else Inl issues)
      | _ \<Rightarrow> Inl [ZodIssue path ''invalid_type''])"

definition zBoolean :: "string list \<Rightarrow> json option \<Rightarrow> bool parsed" where
  "zBoolean path v =
     (case v of Some (JBool b) \<Rightarrow> Inr b | _ \<Rightarrow> Inl [ZodIssue path ''invalid_type''])"

definition zEnum :: "('a \<Rightarrow> string) \<Rightarrow> 'a list \<Rightarrow> string list \<Rightarrow> json option \<Rightarrow> 'a parsed" where
  "zEnum nameOf values path v =
     (case v of
        Some (JStr s) \<Rightarrow>
          (case find (\<lambda>x. nameOf x = s) values of
             Some x \<Rightarrow> Inr x
           | None \<Rightarrow> Inl [ZodIssue path ''invalid_enum_value''])
      | _ \<Rightarrow> Inl [ZodIssue path ''invalid_type''])"

definition zOptional :: "(string list \<Rightarrow> json option \<Rightarrow> 'a parsed) \<Rightarrow> string list \<Rightarrow> json option \<Rightarrow> 'a option parsed" where
  "zOptional inner path v =
     (case v of None \<Rightarrow> Inr None | Some j \<Rightarrow> map_sum id Some (inner path (Some j)))"

definition zDefault :: "'a \<Rightarrow> (string list \<Rightarrow> json option \<Rightarrow> 'a parsed) \<Rightarrow> string list \<Rightarrow> json option \<Rightarrow> 'a parsed" where
  "zDefault d inner path v = (case v of None \<Rightarrow> Inr d | Some j \<Rightarrow> inner path (Some j))"

definition issuesOf :: "'a parsed \<Rightarrow> zod_issue list" where
  "issuesOf r = (case r of Inl e \<Rightarrow> e | Inr x \<Rightarrow> [])"

definition valuesOf :: "'a parsed list \<Rightarrow> 'a list" where
  "valuesOf rs = List.map_filter (\<lambda>r. case r of Inl e \<Rightarrow> None | Inr x \<Rightarrow> Some x) rs"

text \<open>\<^verbatim>\<open>z.array(element).min(n)\<close>: the array is valid when it is long enough and every
  element is valid; otherwise the issues are the length issue, then the issues of the
  elements, each under its index.\<close>

definition zArray :: "nat \<Rightarrow> (string list \<Rightarrow> json option \<Rightarrow> 'a parsed) \<Rightarrow> string list \<Rightarrow> json option \<Rightarrow> 'a list parsed" where
  "zArray minLength element path v =
     (case v of
        Some (JArr js) \<Rightarrow>
          (let results = map (\<lambda>(i, j). element (path @ [showNat i]) (Some j))
                             (zip [0 ..< length js] js);
               tooSmall = length js < minLength
           in if \<not> tooSmall \<and> list_all (\<lambda>r. \<not> isl r) results then Inr (valuesOf results)
              else Inl ((if tooSmall then [ZodIssue path ''too_small''] else []) @
                        concat (map issuesOf results)))
      | _ \<Rightarrow> Inl [ZodIssue path ''invalid_type''])"

definition zObject :: "(((string \<rightharpoonup> json)) \<Rightarrow> 'a parsed) \<Rightarrow> string list \<Rightarrow> json option \<Rightarrow> 'a parsed" where
  "zObject shape path v =
     (case v of
        Some (JObj members) \<Rightarrow> shape (map_of members)
      | _ \<Rightarrow> Inl [ZodIssue path ''invalid_type''])"

definition zMin :: "int \<Rightarrow> rat \<Rightarrow> bool" where
  "zMin n q \<longleftrightarrow> of_int n \<le> q"

definition zMax :: "int \<Rightarrow> rat \<Rightarrow> bool" where
  "zMax n q \<longleftrightarrow> q \<le> of_int n"

definition zPositive :: "rat \<Rightarrow> bool" where
  "zPositive q \<longleftrightarrow> 0 < q"

text \<open>
  The length zod compares is \<^verbatim>\<open>s.length\<close>, which counts UTF-16 code units: one for
  every character of the UTF-8 text (every byte that is not a continuation byte) and one
  more for a character outside the basic plane (a lead byte from \<open>0xF0\<close> on).
\<close>

definition utf16Length :: "string \<Rightarrow> nat" where
  "utf16Length s =
     length (filter (\<lambda>c. \<not> (128 \<le> (of_char c :: nat) \<and> (of_char c :: nat) < 192)) s) +
     length (filter (\<lambda>c. 240 \<le> (of_char c :: nat)) s)"

definition minLen :: "nat \<Rightarrow> string \<Rightarrow> bool" where
  "minLen n s \<longleftrightarrow> n \<le> utf16Length s"

definition maxLen :: "nat \<Rightarrow> string \<Rightarrow> bool" where
  "maxLen n s \<longleftrightarrow> utf16Length s \<le> n"

definition zOrderId :: "string list \<Rightarrow> json option \<Rightarrow> int parsed" where
  "zOrderId = zInt [zPositive] [''too_small'']"

definition zStage :: "string list \<Rightarrow> json option \<Rightarrow> stage_type parsed" where
  "zStage = zEnum stageName STAGE_ORDER"

definition zNotes :: "string list \<Rightarrow> json option \<Rightarrow> string option parsed" where
  "zNotes = zOptional (zString [maxLen 2000] [''too_big''])"

record list_orders_args =
  lo_limit :: "int option"
  lo_stage :: "stage_type option"
  lo_states :: "stage_state list option"

record get_order_details_args =
  gd_orderId :: int

record create_order_args =
  co_orderNumber :: string
  co_priority :: "int option"
  co_notes :: "string option"

record update_priority_args =
  up_orderId :: int
  up_priority :: int

record claim_stage_args =
  cl_orderId :: int
  cl_stage :: stage_type
  cl_assignee :: "string option"

record list_checklist_args =
  lc_orderId :: int
  lc_stage :: stage_type

record complete_stage_args =
  cs_orderId :: int
  cs_stage :: stage_type
  cs_serviceTimeMinutes :: "int option"
  cs_notes :: "string option"

record checklist_task =
  taskId :: string
  completed :: bool

record update_checklist_args =
  uc_orderId :: int
  uc_stage :: stage_type
  uc_tasks :: "checklist_task list"

record flag_exception_args =
  fe_orderId :: int
  fe_stage :: stage_type
  fe_exceptionReason :: string
  fe_notes :: "string option"

record approve_skip_args =
  as_orderId :: int
  as_stage :: stage_type
  as_notes :: "string option"

definition ListOrdersSchema :: "json \<Rightarrow> list_orders_args parsed" where
  "ListOrdersSchema j = zObject (\<lambda>get.
     zap (zap (zap (Inr (\<lambda>l st ss. \<lparr>lo_limit = l, lo_stage = st, lo_states = ss\<rparr>))
       (zOptional (zInt [zMin 1, zMax 25] [''too_small'', ''too_big'']) [''limit''] (get ''limit'')))
       (zOptional zStage [''stage''] (get ''stage'')))
       (zOptional (zArray 0 (zEnum stateName STAGE_STATES)) [''states''] (get ''states''))) [] (Some j)"

definition GetOrderDetailsSchema :: "json \<Rightarrow> get_order_details_args parsed" where
  "GetOrderDetailsSchema j = zObject (\<lambda>get.
     zap (Inr (\<lambda>i. \<lparr>gd_orderId = i\<rparr>)) (zOrderId [''orderId''] (get ''orderId''))) [] (Some j)"

definition CreateOrderSchema :: "json \<Rightarrow> create_order_args parsed" where
  "CreateOrderSchema j = zObject (\<lambda>get.
     zap (zap (zap (Inr (\<lambda>n p t. \<lparr>co_orderNumber = n, co_priority = p, co_notes = t\<rparr>))
       (zString [minLen 3, maxLen 64] [''too_small'', ''too_big''] [''orderNumber''] (get ''orderNumber'')))
       (zOptional (zInt [zMin 0, zMax 999] [''too_small'', ''too_big'']) [''priority''] (get ''priority'')))
       (zNotes [''notes''] (get ''notes''))) [] (Some j)"

definition UpdatePrioritySchema :: "json \<Rightarrow> update_priority_args parsed" where
  "UpdatePrioritySchema j = zObject (\<lambda>get.
     zap (zap (Inr (\<lambda>i p. \<lparr>up_orderId = i, up_priority = p\<rparr>))
       (zOrderId [''orderId''] (get ''orderId'')))
       (zInt [zMin 0, zMax 999] [''too_small'', ''too_big''] [''priority''] (get ''priority''))) [] (Some j)"

definition ClaimStageSchema :: "json \<Rightarrow> claim_stage_args parsed" where
  "ClaimStageSchema j = zObject (\<lambda>get.
     zap (zap (zap (Inr (\<lambda>i st a. \<lparr>cl_orderId = i, cl_stage = st, cl_assignee = a\<rparr>))
       (zOrderId [''orderId''] (get ''orderId'')))
       (zStage [''stage''] (get ''stage'')))
       (zOptional (zString [minLen 2, maxLen 64] [''too_small'', ''too_big'']) [''assignee''] (get ''assignee''))) [] (Some j)"

definition ListChecklistSchema :: "json \<Rightarrow> list_checklist_args parsed" where
  "ListChecklistSchema j = zObject (\<lambda>get.
     zap (zap (Inr (\<lambda>i st. \<lparr>lc_orderId = i, lc_stage = st\<rparr>))
       (zOrderId [''orderId''] (get ''orderId'')))
       (zStage [''stage''] (get ''stage''))) [] (Some j)"

definition CompleteStageSchema :: "json \<Rightarrow> complete_stage_args parsed" where
  "CompleteStageSchema j = zObject (\<lambda>get.
     zap (zap (zap (zap (Inr (\<lambda>i st m t.
         \<lparr>cs_orderId = i, cs_stage = st, cs_serviceTimeMinutes = m, cs_notes = t\<rparr>))
       (zOrderId [''orderId''] (get ''orderId'')))
       (zStage [''stage''] (get ''stage'')))
       (zOptional (zInt [zMin 1, zMax 600] [''too_small'', ''too_big''])
          [''serviceTimeMinutes''] (get ''serviceTimeMinutes'')))
       (zNotes [''notes''] (get ''notes''))) [] (Some j)"

definition ChecklistTaskSchema :: "string list \<Rightarrow> json option \<Rightarrow> checklist_task parsed" where
  "ChecklistTaskSchema path v = zObject (\<lambda>get.
     zap (zap (Inr (\<lambda>t c. \<lparr>taskId = t, completed = c\<rparr>))
       (zString [minLen 1] [''too_small''] (path @ [''taskId'']) (get ''taskId'')))
       (zBoolean (path @ [''completed'']) (get ''completed''))) path v"

definition UpdateChecklistSchema :: "json \<Rightarrow> update_checklist_args parsed" where
  "UpdateChecklistSchema j = zObject (\<lambda>get.
     zap (zap (zap (Inr (\<lambda>i st ts. \<lparr>uc_orderId = i, uc_stage = st, uc_tasks = ts\<rparr>))
       (zOrderId [''orderId''] (get ''orderId'')))
       (zStage [''stage''] (get ''stage'')))
       (zArray 1 ChecklistTaskSchema [''tasks''] (get ''tasks''))) [] (Some j)"

definition FlagExceptionSchema :: "json \<Rightarrow> flag_exception_args parsed" where
  "FlagExceptionSchema j = zObject (\<lambda>get.
     zap (zap (zap (zap (Inr (\<lambda>i st r t.
         \<lparr>fe_orderId = i, fe_stage = st, fe_exceptionReason = r, fe_notes = t\<rparr>))
       (zOrderId [''orderId''] (get ''orderId'')))
       (zStage [''stage''] (get ''stage'')))
       (zString [minLen 3, maxLen 500] [''too_small'', ''too_big'']
          [''exceptionReason''] (get ''exceptionReason'')))
       (zNotes [''notes''] (get ''notes''))) [] (Some j)"

definition ApproveSkipSchema :: "json \<Rightarrow> approve_skip_args parsed" where
  "ApproveSkipSchema j = zObject (\<lambda>get.
     zap (zap (zap (Inr (\<lambda>i st t. \<lparr>as_orderId = i, as_stage = st, as_notes = t\<rparr>))
       (zOrderId [''orderId''] (get ''orderId'')))
       (zStage [''stage''] (get ''stage'')))
       (zNotes [''notes''] (get ''notes''))) [] (Some j)"

text \<open>The value a schema yields, tagged with the schema it came from.\<close>

datatype action_args =
    ListOrdersArgs list_orders_args
  | GetOrderDetailsArgs get_order_details_args
  | ListChecklistArgs list_checklist_args
  | CreateOrderArgs create_order_args
  | UpdatePriorityArgs update_priority_args
  | ClaimStageArgs claim_stage_args
  | UpdateChecklistArgs update_checklist_args
  | CompleteStageArgs complete_stage_args
  | FlagExceptionArgs flag_exception_args
  | ApproveSkipArgs approve_skip_args

text \<open>The plan the model returns.\<close>

record planned_action =
  pa_name :: string
  pa_rationale :: "string option"
  pa_arguments :: json

record agent_plan =
  plan_intent :: string
  plan_reasoning :: "string option"
  plan_notes :: "string option"
  plan_actions :: "planned_action list"

definition zRecordAny :: "string list \<Rightarrow> json option \<Rightarrow> json parsed" where
  "zRecordAny path v =
     (case v of
        Some (JObj members) \<Rightarrow> Inr (JObj members)
      | _ \<Rightarrow> Inl [ZodIssue path ''invalid_type''])"

definition PlanActionSchema :: "string list \<Rightarrow> json option \<Rightarrow> planned_action parsed" where
  "PlanActionSchema path v = zObject (\<lambda>get.
     zap (zap (zap (Inr (\<lambda>n r a. \<lparr>pa_name = n, pa_rationale = r, pa_arguments = a\<rparr>))
       (zEnum (\<lambda>n. n) ACTION_NAMES (path @ [''name'']) (get ''name'')))
       (zOptional (zString [] []) (path @ [''rationale'']) (get ''rationale'')))
       (zDefault (JObj []) zRecordAny (path @ [''arguments'']) (get ''arguments''))) path v"

definition PlanSchema :: "json \<Rightarrow> agent_plan parsed" where
  "PlanSchema j = zObject (\<lambda>get.
     zap (zap (zap (zap (Inr (\<lambda>i r n a.
         \<lparr>plan_intent = i, plan_reasoning = r, plan_notes = n, plan_actions = a\<rparr>))
       (zDefault [] (zString [] []) [''intent''] (get ''intent'')))
       (zOptional (zString [] []) [''reasoning''] (get ''reasoning'')))
       (zOptional (zString [] []) [''notes''] (get ''notes'')))
       (zDefault [] (zArray 0 PlanActionSchema) [''actions''] (get ''actions''))) [] (Some j)"

subsection \<open>Remote services and the state of a request\<close>

text \<open>
  One constructor per call the route makes on the workflow service:
  \<^item> \<open>GetOrders\<close>: GET /api/orders;
  \<^item> \<open>GetOrder id\<close>: GET /api/orders/id;
  \<^item> \<open>PostOrder number priority notes\<close>: POST /api/orders;
  \<^item> \<open>PatchPriority id priority\<close>: PATCH /api/orders/id/priority;
  \<^item> \<open>PostClaim id stage assignee\<close>: POST /api/operator/orders/id/stages/stage/claim;
  \<^item> \<open>PatchChecklist id stage taskId completed\<close>:
    PATCH /api/operator/orders/id/stages/stage/checklist;
  \<^item> \<open>PostComplete id stage assignee serviceTimeMinutes notes\<close>:
    POST /api/operator/orders/id/stages/stage/complete;
  \<^item> \<open>PostFlagException id stage assignee exceptionReason notes\<close>:
    POST /api/operator/orders/id/stages/stage/flag-exception;
  \<^item> \<open>PostApproveSkip id stage approver notes\<close>:
    POST /api/supervisor/orders/id/stages/stage/approve-skip;
  \<^item> \<open>GetMe\<close>: GET /auth/me.
\<close>

datatype request =
    GetOrders
  | GetOrder int
  | PostOrder string "int option" "string option"
  | PatchPriority int int
  | PostClaim int stage_type string
  | PatchChecklist int stage_type string bool
  | PostComplete int stage_type string int "string option"
  | PostFlagException int stage_type string string "string option"
  | PostApproveSkip int stage_type string "string option"
  | GetMe

text \<open>What the model answers: its content, a string or a list of parts, and the name of
  the model in the metadata, when it is there.\<close>

datatype content_part = PartString string | PartText string | PartOther

datatype content = ContentString string | ContentArray "content_part list" | ContentOther

record model_response =
  resp_content :: content
  resp_model :: "string option"

type_synonym message = "string \<times> string"

datatype call = Fetch request | Invoke "message list"

record 'w state =
  calls :: "call list"
  world :: 'w

text \<open>
  The services are what the route does not own. A remote call takes the world and answers
  the next world together with either the message of the error it raises (\<open>Inl\<close>) or the
  decoded body, of the type the call site expects (\<^verbatim>\<open>fetchWithAuthJson<T>\<close>).
  \<open>jsonParse\<close> is \<^verbatim>\<open>JSON.parse\<close> (\<open>Inl\<close> its syntax error), \<open>jsonStringify\<close> is
  \<^verbatim>\<open>JSON.stringify(plan, null, 2)\<close>, \<open>zodMessage\<close> the text zod gives an issue list,
  \<open>dateGetTime\<close> is \<^verbatim>\<open>new Date(s).getTime()\<close>, \<open>None\<close> where it is NaN.
\<close>

record 'w services =
  orderListJson :: "string \<Rightarrow> request \<Rightarrow> 'w \<Rightarrow> (string + order_response list) \<times> 'w"
  orderJson :: "string \<Rightarrow> request \<Rightarrow> 'w \<Rightarrow> (string + order_response) \<times> 'w"
  stageJson :: "string \<Rightarrow> request \<Rightarrow> 'w \<Rightarrow> (string + order_stage_status) \<times> 'w"
  profileJson :: "string \<Rightarrow> request \<Rightarrow> 'w \<Rightarrow> (string + user_profile) \<times> 'w"
  modelInvoke :: "message list \<Rightarrow> 'w \<Rightarrow> (string + model_response) \<times> 'w"
  jsonParse :: "string \<Rightarrow> string + json"
  jsonStringify :: "agent_plan \<Rightarrow> string"
  zodMessage :: "zod_issue list \<Rightarrow> string"
  dateGetTime :: "string \<Rightarrow> int option"
  OLLAMA_BASE_URL :: string
  OLLAMA_MODEL :: string

definition fetchWithAuthJson ::
  "(string \<Rightarrow> request \<Rightarrow> 'w \<Rightarrow> (string + 'a) \<times> 'w) \<Rightarrow> request \<Rightarrow> string \<Rightarrow> 'w state
    \<Rightarrow> (string + 'a) \<times> 'w state" where
  "fetchWithAuthJson endpoint req token s =
     (case endpoint token req (world s) of
        (r, w) \<Rightarrow> (r, \<lparr>calls = calls s @ [Fetch req], world = w\<rparr>))"

definition invokeModel ::
  "'w services \<Rightarrow> message list \<Rightarrow> 'w state \<Rightarrow> (string + model_response) \<times> 'w state" where
  "invokeModel S messages s =
     (case modelInvoke S messages (world s) of
        (r, w) \<Rightarrow> (r, \<lparr>calls = calls s @ [Invoke messages], world = w\<rparr>))"

definition fetchOrders :: "'w services \<Rightarrow> string \<Rightarrow> 'w state \<Rightarrow> (string + order_response list) \<times> 'w state" where
  "fetchOrders S token s = fetchWithAuthJson (orderListJson S) GetOrders token s"

definition fetchUserProfile :: "'w services \<Rightarrow> string \<Rightarrow> 'w state \<Rightarrow> (string + user_profile) \<times> 'w state" where
  "fetchUserProfile S token s = fetchWithAuthJson (profileJson S) GetMe token s"

definition buildWorkflowContext ::
  "'w services \<Rightarrow> string \<Rightarrow> 'w state \<Rightarrow> (string \<times> string option) \<times> 'w state" where
  "buildWorkflowContext S token s =
     (case fetchOrders S token s of
        (Inr orders, s1) \<Rightarrow> ((contextSummaryOf (dateGetTime S) orders, None), s1)
      | (Inl message, s1) \<Rightarrow> (([], Some message), s1))"

subsection \<open>Action results and the execution context\<close>

datatype status = success | error | skipped

fun statusName :: "status \<Rightarrow> string" where
  "statusName success = ''success''"
| "statusName error = ''error''"
| "statusName skipped = ''skipped''"

datatype action_data =
    OrdersData "order_response list"
  | OrderData order_response
  | ChecklistData "checklist_item list"
  | StageData order_stage_status
  | LastStatusData "order_stage_status option"

record agent_action_result =
  r_name :: string
  r_status :: status
  r_summary :: string
  r_data :: "action_data option"
  r_error :: "string option"

record execution_context =
  ctx_token :: string
  ctx_username :: string
  ctx_roles :: "string set"

type_synonym 'w handler =
  "execution_context \<Rightarrow> 'w state \<Rightarrow> (string + agent_action_result) \<times> 'w state"

definition nullText :: "string option \<Rightarrow> string" where
  "nullText v = (case v of Some s \<Rightarrow> s | None \<Rightarrow> ''null'')"

definition nullNumber :: "int option \<Rightarrow> string" where
  "nullNumber v = (case v of Some n \<Rightarrow> showInt n | None \<Rightarrow> ''null'')"

subsection \<open>The handlers of the ten actions\<close>

definition list_orders_handler :: "'w services \<Rightarrow> list_orders_args \<Rightarrow> 'w handler" where
  "list_orders_handler S args ctx s =
     (case fetchOrders S (ctx_token ctx) s of
        (Inl err, s1) \<Rightarrow> (Inl err, s1)
      | (Inr orders, s1) \<Rightarrow>
          (let byStage = (case lo_stage args of
                            Some st \<Rightarrow> filter (\<lambda>order. o_currentStage order = st) orders
                          | None \<Rightarrow> orders);
               filtered = (case lo_states args of
                             Some (x # xs) \<Rightarrow>
                               filter (\<lambda>order. o_overallState order \<in> set (x # xs)) byStage
                           | _ \<Rightarrow> byStage);
               limit = (case lo_limit args of
                          Some l \<Rightarrow> l
                        | None \<Rightarrow> min (int (length filtered)) 10)
           in (Inr \<lparr>r_name = ''list_orders'', r_status = success,
                    r_summary = ''Retrieved '' @ showNat (length filtered) @
                                '' orders, returning '' @ showInt limit @ ''.'',
                    r_data = Some (OrdersData (take (nat limit) filtered)),
                    r_error = None\<rparr>, s1)))"

definition get_order_details_handler :: "'w services \<Rightarrow> get_order_details_args \<Rightarrow> 'w handler" where
  "get_order_details_handler S args ctx s =
     (case fetchWithAuthJson (orderJson S) (GetOrder (gd_orderId args)) (ctx_token ctx) s of
        (Inl err, s1) \<Rightarrow> (Inl err, s1)
      | (Inr data, s1) \<Rightarrow>
          (Inr \<lparr>r_name = ''get_order_details'', r_status = success,
                r_summary = ''Pulled current data for order '' @ o_orderNumber data @ ''.'',
                r_data = Some (OrderData data), r_error = None\<rparr>, s1))"

definition list_stage_checklist_handler :: "'w services \<Rightarrow> list_checklist_args \<Rightarrow> 'w handler" where
  "list_stage_checklist_handler S args ctx s =
     (case fetchWithAuthJson (orderJson S) (GetOrder (lc_orderId args)) (ctx_token ctx) s of
        (Inl err, s1) \<Rightarrow> (Inl err, s1)
      | (Inr order, s1) \<Rightarrow>
          (case find (\<lambda>status. ss_stage status = lc_stage args) (o_stages order) of
             None \<Rightarrow>
               (Inr \<lparr>r_name = ''list_stage_checklist'', r_status = error,
                     r_summary = ''Stage '' @ stageName (lc_stage args) @
                                 '' was not found on order '' @ o_orderNumber order @ ''.'',
                     r_data = None, r_error = None\<rparr>, s1)
           | Some stageStatus \<Rightarrow>
               (Inr \<lparr>r_name = ''list_stage_checklist'', r_status = success,
                     r_summary = ''Retrieved '' @ showNat (length (ss_checklist stageStatus)) @
                                 '' tasks for stage '' @ stageName (lc_stage args) @ ''.'',
                     r_data = Some (ChecklistData (ss_checklist stageStatus)),
                     r_error = None\<rparr>, s1)))"

definition create_order_handler :: "'w services \<Rightarrow> create_order_args \<Rightarrow> 'w handler" where
  "create_order_handler S args ctx s =
     (case fetchWithAuthJson (orderJson S)
             (PostOrder (co_orderNumber args) (co_priority args) (co_notes args)) (ctx_token ctx) s of
        (Inl err, s1) \<Rightarrow> (Inl err, s1)
      | (Inr data, s1) \<Rightarrow>
          (Inr \<lparr>r_name = ''create_order'', r_status = success,
                r_summary = ''Created order '' @ o_orderNumber data @ '' (id '' @
                            showInt (o_id data) @ '').'',
                r_data = Some (OrderData data), r_error = None\<rparr>, s1))"

definition update_order_priority_handler :: "'w services \<Rightarrow> update_priority_args \<Rightarrow> 'w handler" where
  "update_order_priority_handler S args ctx s =
     (case fetchWithAuthJson (orderJson S)
             (PatchPriority (up_orderId args) (up_priority args)) (ctx_token ctx) s of
        (Inl err, s1) \<Rightarrow> (Inl err, s1)
      | (Inr data, s1) \<Rightarrow>
          (Inr \<lparr>r_name = ''update_order_priority'', r_status = success,
                r_summary = ''Updated order '' @ o_orderNumber data @ '' priority to '' @
                            nullNumber (o_priority data) @ ''.'',
                r_data = Some (OrderData data), r_error = None\<rparr>, s1))"

definition claim_stage_handler :: "'w services \<Rightarrow> claim_stage_args \<Rightarrow> 'w handler" where
  "claim_stage_handler S args ctx s =
     (let assignee = (case cl_assignee args of Some a \<Rightarrow> a | None \<Rightarrow> ctx_username ctx) in
      case fetchWithAuthJson (stageJson S)
             (PostClaim (cl_orderId args) (cl_stage args) assignee) (ctx_token ctx) s of
        (Inl err, s1) \<Rightarrow> (Inl err, s1)
      | (Inr data, s1) \<Rightarrow>
          (Inr \<lparr>r_name = ''claim_stage'', r_status = success,
                r_summary = ''Stage '' @ stageName (ss_stage data) @ '' claimed by '' @
                            (case ss_assignee data of Some a \<Rightarrow> a | None \<Rightarrow> ctx_username ctx) @
                            ''.'',
                r_data = Some (StageData data), r_error = None\<rparr>, s1))"

text \<open>The loop of the checklist handler: one PATCH per task, in order; the first call
  that raises ends the loop and the handler with it.\<close>

fun patchTasks ::
  "'w services \<Rightarrow> execution_context \<Rightarrow> int \<Rightarrow> stage_type \<Rightarrow> checklist_task list
    \<Rightarrow> order_stage_status option \<Rightarrow> 'w state
    \<Rightarrow> (string + order_stage_status option) \<times> 'w state" where
  "patchTasks S ctx orderId stage [] lastStatus s = (Inr lastStatus, s)"
| "patchTasks S ctx orderId stage (task # tasks) lastStatus s =
     (case fetchWithAuthJson (stageJson S)
             (PatchChecklist orderId stage (taskId task) (completed task)) (ctx_token ctx) s of
        (Inl err, s1) \<Rightarrow> (Inl err, s1)
      | (Inr status, s1) \<Rightarrow> patchTasks S ctx orderId stage tasks (Some status) s1)"

text \<open>The calls the loop makes on a task list, one per task, when none of them fails.\<close>

definition patchCalls :: "int \<Rightarrow> stage_type \<Rightarrow> checklist_task list \<Rightarrow> call list" where
  "patchCalls orderId stage tasks =
     map (\<lambda>task. Fetch (PatchChecklist orderId stage (taskId task) (completed task))) tasks"

definition update_stage_checklist_handler :: "'w services \<Rightarrow> update_checklist_args \<Rightarrow> 'w handler" where
  "update_stage_checklist_handler S args ctx s =
     (if ''OPERATOR'' \<notin> ctx_roles ctx then
        (Inr \<lparr>r_name = ''update_stage_checklist'', r_status = error,
              r_summary = ''Only operators can update stage checklists.'',
              r_data = None, r_error = None\<rparr>, s)
      else
        (case patchTasks S ctx (uc_orderId args) (uc_stage args) (uc_tasks args) None s of
           (Inl err, s1) \<Rightarrow> (Inl err, s1)
         | (Inr lastStatus, s1) \<Rightarrow>
             (Inr \<lparr>r_name = ''update_stage_checklist'', r_status = success,
                   r_summary = ''Updated '' @ showNat (length (uc_tasks args)) @
                               '' checklist task'' @
                               (if length (uc_tasks args) = 1 then [] else ''s'') @
                               '' for stage '' @ stageName (uc_stage args) @ ''.'',
                   r_data = Some (LastStatusData lastStatus), r_error = None\<rparr>, s1)))"

definition complete_stage_handler :: "'w services \<Rightarrow> complete_stage_args \<Rightarrow> 'w handler" where
  "complete_stage_handler S args ctx s =
     (let serviceTime = (case cs_serviceTimeMinutes args of Some m \<Rightarrow> m | None \<Rightarrow> 30) in
      case fetchWithAuthJson (stageJson S)
             (PostComplete (cs_orderId args) (cs_stage args) (ctx_username ctx) serviceTime
                (cs_notes args)) (ctx_token ctx) s of
        (Inl err, s1) \<Rightarrow> (Inl err, s1)
      | (Inr data, s1) \<Rightarrow>
          (Inr \<lparr>r_name = ''complete_stage'', r_status = success,
                r_summary = ''Stage '' @ stageName (ss_stage data) @ '' completed (state '' @
                            stateName (ss_state data) @ '').'',
                r_data = Some (StageData data), r_error = None\<rparr>, s1))"

definition flag_stage_exception_handler :: "'w services \<Rightarrow> flag_exception_args \<Rightarrow> 'w handler" where
  "flag_stage_exception_handler S args ctx s =
     (case fetchWithAuthJson (stageJson S)
             (PostFlagException (fe_orderId args) (fe_stage args) (ctx_username ctx)
                (fe_exceptionReason args) (fe_notes args)) (ctx_token ctx) s of
        (Inl err, s1) \<Rightarrow> (Inl err, s1)
      | (Inr data, s1) \<Rightarrow>
          (Inr \<lparr>r_name = ''flag_stage_exception'', r_status = success,
                r_summary = ''Flagged stage '' @ stageName (ss_stage data) @
                            '' with exception '' @ [CHR 0x22] @
                            nullText (ss_exceptionReason data) @ [CHR 0x22] @ ''.'',
                r_data = Some (StageData data), r_error = None\<rparr>, s1))"

definition approve_stage_skip_handler :: "'w services \<Rightarrow> approve_skip_args \<Rightarrow> 'w handler" where
  "approve_stage_skip_handler S args ctx s =
     (case fetchWithAuthJson (stageJson S)
             (PostApproveSkip (as_orderId args) (as_stage args) (ctx_username ctx)
                (as_notes args)) (ctx_token ctx) s of
        (Inl err, s1) \<Rightarrow> (Inl err, s1)
      | (Inr data, s1) \<Rightarrow>
          (Inr \<lparr>r_name = ''approve_stage_skip'', r_status = success,
                r_summary = ''Approved skip for stage '' @ stageName (ss_stage data) @ ''.'',
                r_data = Some (StageData data), r_error = None\<rparr>, s1))"

subsection \<open>The action catalogue\<close>

text \<open>
  A definition pairs a schema with the handler of the same action, and the route casts the
  table to one type for all (\<^verbatim>\<open>as unknown as ActionDefinition[]\<close>). Here the schema's
  value carries its tag, and a handler given the value of another schema, which the table
  never does, raises.
\<close>

record 'w action_definition =
  def_name :: string
  def_description :: string
  def_parameterSummary :: string
  def_roles :: "string list"
  def_schema :: "json \<Rightarrow> action_args parsed"
  def_handler :: "action_args \<Rightarrow> 'w handler"

definition wrongArguments :: "'w handler" where
  "wrongArguments ctx s = (Inl ''TypeError'', s)"

definition ACTION_DEFINITIONS :: "'w services \<Rightarrow> 'w action_definition list" where
  "ACTION_DEFINITIONS S =
   [\<lparr>def_name = ''list_orders'',
     def_description = ''Retrieve up to 25 live orders for situational awareness.'',
     def_parameterSummary = ''limit (optional number 1-25), stage (PREPARATION/ASSEMBLY/DELIVERY), states (array of workflow states).'',
     def_roles = [''OPERATOR'', ''SUPERVISOR''],
     def_schema = (\<lambda>j. map_sum id ListOrdersArgs (ListOrdersSchema j)),
     def_handler = (\<lambda>data. case data of ListOrdersArgs args \<Rightarrow> list_orders_handler S args
                                | _ \<Rightarrow> wrongArguments)\<rparr>,
    \<lparr>def_name = ''get_order_details'',
     def_description = ''Pull a single order with all stage details before taking action.'',
     def_parameterSummary = ''orderId (number).'',
     def_roles = [''OPERATOR'', ''SUPERVISOR''],
     def_schema = (\<lambda>j. map_sum id GetOrderDetailsArgs (GetOrderDetailsSchema j)),
     def_handler = (\<lambda>data. case data of GetOrderDetailsArgs args \<Rightarrow> get_order_details_handler S args
                                | _ \<Rightarrow> wrongArguments)\<rparr>,
    \<lparr>def_name = ''list_stage_checklist'',
     def_description = ''Read the checklist items for any stage of an order.'',
     def_parameterSummary = ''orderId (number), stage (PREPARATION/ASSEMBLY/DELIVERY).'',
     def_roles = [''OPERATOR'', ''SUPERVISOR''],
     def_schema = (\<lambda>j. map_sum id ListChecklistArgs (ListChecklistSchema j)),
     def_handler = (\<lambda>data. case data of ListChecklistArgs args \<Rightarrow> list_stage_checklist_handler S args
                                | _ \<Rightarrow> wrongArguments)\<rparr>,
    \<lparr>def_name = ''create_order'',
     def_description = ''Create a brand-new work order when supervisors request new work.'',
     def_parameterSummary = ''orderNumber (string), priority (optional integer), notes (optional string).'',
     def_roles = [''SUPERVISOR''],
     def_schema = (\<lambda>j. map_sum id CreateOrderArgs (CreateOrderSchema j)),
     def_handler = (\<lambda>data. case data of CreateOrderArgs args \<Rightarrow> create_order_handler S args
                                | _ \<Rightarrow> wrongArguments)\<rparr>,
    \<lparr>def_name = ''update_order_priority'',
     def_description = ''Supervisors can adjust queue priority on any order.'',
     def_parameterSummary = ''orderId (number), priority (integer).'',
     def_roles = [''SUPERVISOR''],
     def_schema = (\<lambda>j. map_sum id UpdatePriorityArgs (UpdatePrioritySchema j)),
     def_handler = (\<lambda>data. case data of UpdatePriorityArgs args \<Rightarrow> update_order_priority_handler S args
                                | _ \<Rightarrow> wrongArguments)\<rparr>,
    \<lparr>def_name = ''claim_stage'',
     def_description = ''Operators claim a stage before doing work.'',
     def_parameterSummary = ''orderId (number), stage (PREPARATION/ASSEMBLY/DELIVERY), assignee (optional string defaults to current user).'',
     def_roles = [''OPERATOR''],
     def_schema = (\<lambda>j. map_sum id ClaimStageArgs (ClaimStageSchema j)),
     def_handler = (\<lambda>data. case data of ClaimStageArgs args \<Rightarrow> claim_stage_handler S args
                                | _ \<Rightarrow> wrongArguments)\<rparr>,
    \<lparr>def_name = ''update_stage_checklist'',
     def_description = ''Operators can toggle checklist tasks before finishing a stage.'',
     def_parameterSummary = ''orderId (number), stage, tasks (array of { taskId, completed }).'',
     def_roles = [''OPERATOR''],
     def_schema = (\<lambda>j. map_sum id UpdateChecklistArgs (UpdateChecklistSchema j)),
     def_handler = (\<lambda>data. case data of UpdateChecklistArgs args \<Rightarrow> update_stage_checklist_handler S args
                                | _ \<Rightarrow> wrongArguments)\<rparr>,
    \<lparr>def_name = ''complete_stage'',
     def_description = ''Operators mark a stage complete once the work and notes are captured.'',
     def_parameterSummary = ''orderId (number), stage, serviceTimeMinutes (optional int, defaults to 30), notes (optional string).'',
     def_roles = [''OPERATOR''],
     def_schema = (\<lambda>j. map_sum id CompleteStageArgs (CompleteStageSchema j)),
     def_handler = (\<lambda>data. case data of CompleteStageArgs args \<Rightarrow> complete_stage_handler S args
                                | _ \<Rightarrow> wrongArguments)\<rparr>,
    \<lparr>def_name = ''flag_stage_exception'',
     def_description = ''Operators document blocking issues so supervisors can follow up.'',
     def_parameterSummary = ''orderId (number), stage, exceptionReason (string), notes (optional string).'',
     def_roles = [''OPERATOR''],
     def_schema = (\<lambda>j. map_sum id FlagExceptionArgs (FlagExceptionSchema j)),
     def_handler = (\<lambda>data. case data of FlagExceptionArgs args \<Rightarrow> flag_stage_exception_handler S args
                                | _ \<Rightarrow> wrongArguments)\<rparr>,
    \<lparr>def_name = ''approve_stage_skip'',
     def_description = ''Supervisors can approve stage skips or resequencing when justified.'',
     def_parameterSummary = ''orderId (number), stage, notes (optional string).'',
     def_roles = [''SUPERVISOR''],
     def_schema = (\<lambda>j. map_sum id ApproveSkipArgs (ApproveSkipSchema j)),
     def_handler = (\<lambda>data. case data of ApproveSkipArgs args \<Rightarrow> approve_stage_skip_handler S args
                                | _ \<Rightarrow> wrongArguments)\<rparr>]"

definition ACTION_LIST :: "'w services \<Rightarrow> 'w action_definition list" where
  "ACTION_LIST S = ACTION_DEFINITIONS S"

text \<open>\<^verbatim>\<open>new Map(ACTION_LIST.map((action) => [action.name, action]))\<close>: the entries are set
  one after the other.\<close>

definition ACTION_MAP :: "'w services \<Rightarrow> string \<rightharpoonup> 'w action_definition" where
  "ACTION_MAP S = fold (\<lambda>action m. m(def_name action \<mapsto> action)) (ACTION_LIST S) Map.empty"

subsection \<open>The plan executor\<close>

definition pendingTasks :: "order_stage_status \<Rightarrow> checklist_item list" where
  "pendingTasks stageStatus =
     filter (\<lambda>task. item_required task \<and> \<not> item_completed task) (ss_checklist stageStatus)"

definition checklistFailure :: "string \<Rightarrow> agent_action_result" where
  "checklistFailure err =
     \<lparr>r_name = ''update_stage_checklist'', r_status = error,
      r_summary = ''Failed to evaluate or update checklist tasks before completion.'',
      r_data = None, r_error = Some err\<rparr>"

text \<open>The result is the entries, the flag \<open>ready\<close> and the state. Everything the body
  raises, the fetch and the handler alike, ends in the entry of the \<^verbatim>\<open>catch\<close>.\<close>

definition ensureChecklistBeforeCompletion ::
  "'w services \<Rightarrow> complete_stage_args \<Rightarrow> execution_context \<Rightarrow> 'w state
    \<Rightarrow> agent_action_result list \<times> bool \<times> 'w state" where
  "ensureChecklistBeforeCompletion S args ctx s =
     (case fetchWithAuthJson (orderJson S) (GetOrder (cs_orderId args)) (ctx_token ctx) s of
        (Inl err, s1) \<Rightarrow> ([checklistFailure err], False, s1)
      | (Inr order, s1) \<Rightarrow>
          (case find (\<lambda>status. ss_stage status = cs_stage args) (o_stages order) of
             None \<Rightarrow>
               ([\<lparr>r_name = ''complete_stage'', r_status = error,
                   r_summary = ''Stage '' @ stageName (cs_stage args) @
                               '' was not found on order '' @ o_orderNumber order @ ''.'',
                   r_data = None, r_error = None\<rparr>], False, s1)
           | Some stageStatus \<Rightarrow>
               (let pending = pendingTasks stageStatus in
                if length pending = 0 then ([], True, s1)
                else if ''OPERATOR'' \<notin> ctx_roles ctx then
                  ([\<lparr>r_name = ''update_stage_checklist'', r_status = error,
                      r_summary = ''Checklist tasks are pending, but the current user is not an operator and cannot update them automatically.'',
                      r_data = None, r_error = None\<rparr>], False, s1)
                else
                  (let updateArgs =
                     \<lparr>uc_orderId = cs_orderId args, uc_stage = cs_stage args,
                      uc_tasks = map (\<lambda>task. \<lparr>taskId = item_id task, completed = True\<rparr>) pending\<rparr>
                   in case ACTION_MAP S ''update_stage_checklist'' of
                        None \<Rightarrow>
                          ([\<lparr>r_name = ''update_stage_checklist'', r_status = error,
                              r_summary = ''Checklist update action is not available in this environment.'',
                              r_data = None, r_error = None\<rparr>], False, s1)
                      | Some updateAction \<Rightarrow>
                          (case def_handler updateAction (UpdateChecklistArgs updateArgs) ctx s1 of
                             (Inl err, s2) \<Rightarrow> ([checklistFailure err], False, s2)
                           | (Inr updateResult, s2) \<Rightarrow>
                               if r_status updateResult \<noteq> success
                               then ([updateResult], False, s2)
                               else ([updateResult], True, s2))))))"

text \<open>\<^verbatim>\<open>action.arguments ?? {}\<close>.\<close>

definition orEmptyObject :: "json \<Rightarrow> json" where
  "orEmptyObject j = (case j of JNull \<Rightarrow> JObj [] | _ \<Rightarrow> j)"

definition unsupportedAction :: "string \<Rightarrow> agent_action_result" where
  "unsupportedAction name =
     \<lparr>r_name = name, r_status = error,
      r_summary = ''Action '' @ name @ '' is not supported by this environment.'',
      r_data = None, r_error = None\<rparr>"

definition invalidArguments :: "string \<Rightarrow> string \<Rightarrow> agent_action_result" where
  "invalidArguments name message =
     \<lparr>r_name = name, r_status = error,
      r_summary = ''Invalid arguments supplied for '' @ name @ ''.'',
      r_data = None, r_error = Some message\<rparr>"

definition failedAction :: "string \<Rightarrow> string \<Rightarrow> agent_action_result" where
  "failedAction name message =
     \<lparr>r_name = name, r_status = error,
      r_summary = ''Failed to execute '' @ name @ ''.'',
      r_data = None, r_error = Some message\<rparr>"

text \<open>The \<^verbatim>\<open>try\<close> around the handler: what it returns is the entry, what it raises
  becomes one.\<close>

definition invokeHandler ::
  "'w action_definition \<Rightarrow> string \<Rightarrow> action_args \<Rightarrow> execution_context \<Rightarrow> 'w state
    \<Rightarrow> agent_action_result list \<times> 'w state" where
  "invokeHandler definition name data ctx s =
     (case def_handler definition data ctx s of
        (Inr result, s1) \<Rightarrow> ([result], s1)
      | (Inl err, s1) \<Rightarrow> ([failedAction name err], s1))"

text \<open>The body of the loop of \<^verbatim>\<open>executePlan\<close>: the entries one planned action adds to
  the results. The cast of the parsed data to the arguments of \<^verbatim>\<open>complete_stage\<close> is the
  match on the tag; that schema yields no other tag.\<close>

definition executeAction ::
  "'w services \<Rightarrow> execution_context \<Rightarrow> planned_action \<Rightarrow> 'w state
    \<Rightarrow> agent_action_result list \<times> 'w state" where
  "executeAction S ctx action s =
     (case ACTION_MAP S (pa_name action) of
        None \<Rightarrow> ([unsupportedAction (pa_name action)], s)
      | Some definition \<Rightarrow>
          (case def_schema definition (orEmptyObject (pa_arguments action)) of
             Inl issues \<Rightarrow> ([invalidArguments (pa_name action) (zodMessage S issues)], s)
           | Inr data \<Rightarrow>
               if def_name definition = ''complete_stage'' then
                 (case data of
                    CompleteStageArgs args \<Rightarrow>
                      (case ensureChecklistBeforeCompletion S args ctx s of
                         (entries, ready, s1) \<Rightarrow>
                           if \<not> ready then (entries, s1)
                           else (case invokeHandler definition (pa_name action) data ctx s1 of
                                   (added, s2) \<Rightarrow> (entries @ added, s2)))
                  | _ \<Rightarrow> invokeHandler definition (pa_name action) data ctx s)
               else invokeHandler definition (pa_name action) data ctx s))"

fun executeLoop ::
  "'w services \<Rightarrow> execution_context \<Rightarrow> planned_action list \<Rightarrow> agent_action_result list
    \<Rightarrow> 'w state \<Rightarrow> agent_action_result list \<times> 'w state" where
  "executeLoop S ctx [] results s = (results, s)"
| "executeLoop S ctx (action # actions) results s =
     (case executeAction S ctx action s of
        (entries, s1) \<Rightarrow> executeLoop S ctx actions (results @ entries) s1)"

definition executePlan ::
  "'w services \<Rightarrow> planned_action list \<Rightarrow> execution_context \<Rightarrow> 'w state
    \<Rightarrow> agent_action_result list \<times> 'w state" where
  "executePlan S actions ctx s = executeLoop S ctx actions [] s"

subsection \<open>Plan generation and answer synthesis\<close>

fun partText :: "content_part \<Rightarrow> string" where
  "partText (PartString s) = s"
| "partText (PartText s) = s"
| "partText PartOther = []"

fun normalizeContent :: "content \<Rightarrow> string" where
  "normalizeContent (ContentString s) = s"
| "normalizeContent (ContentArray parts) =
     join [CHR 0x0A] (filter (\<lambda>p. p \<noteq> []) (map partText parts))"
| "normalizeContent ContentOther = []"

definition planningMessages ::
  "string \<Rightarrow> string \<Rightarrow> 'w action_definition list \<Rightarrow> user_profile \<Rightarrow> message list" where
  "planningMessages question contextSummary allowedActions profile =
     (let toolDescription =
        join [CHR 0x0A]
          (map (\<lambda>action. ''- '' @ def_name action @ '': '' @ def_description action @
                          '' Params: '' @ def_parameterSummary action) allowedActions);
          roleList = join '', '' (p_roles profile)
      in [(''system'',
           ''You are ProduSoft's autonomous workflow orchestrator. Plan ONLY with the actions explicitly listed. Return STRICT JSON (no prose) matching schema { \"intent\": string, \"reasoning\": string, \"notes\": string?, \"actions\": [ { \"name\": string, \"rationale\": string, \"arguments\": object } ] }. If no action is needed, return an empty actions array.''),
          (''human'',
           join [CHR 0x0A, CHR 0x0A]
             [''User: '' @ p_username profile,
              ''Roles: '' @ (if roleList \<noteq> [] then roleList else ''unknown''),
              ''Available actions:'' @ [CHR 0x0A] @ toolDescription,
              ''Context:'' @ [CHR 0x0A] @ contextSummary,
              ''Objective:'' @ [CHR 0x0A] @ question])])"

text \<open>What \<^verbatim>\<open>generatePlan\<close> makes of the model's text: the plan, or the message of the
  error it raises.\<close>

definition parsePlan :: "'w services \<Rightarrow> string \<Rightarrow> string + agent_plan" where
  "parsePlan S planText =
     (case extractJson planText of
        None \<Rightarrow> Inl ''Agent plan was not valid JSON.''
      | Some planJson \<Rightarrow>
          if planJson = [] then Inl ''Agent plan was not valid JSON.''
          else (case jsonParse S planJson of
                  Inl syntaxError \<Rightarrow> Inl syntaxError
                | Inr j \<Rightarrow>
                    (case PlanSchema j of
                       Inl issues \<Rightarrow> Inl ''Agent plan schema validation failed.''
                     | Inr plan \<Rightarrow> Inr plan)))"

definition generatePlan ::
  "'w services \<Rightarrow> string \<Rightarrow> string \<Rightarrow> 'w action_definition list \<Rightarrow> user_profile \<Rightarrow> 'w state
    \<Rightarrow> (string + agent_plan) \<times> 'w state" where
  "generatePlan S question contextSummary allowedActions profile s =
     (case invokeModel S (planningMessages question contextSummary allowedActions profile) s of
        (Inl err, s1) \<Rightarrow> (Inl err, s1)
      | (Inr response, s1) \<Rightarrow> (parsePlan S (normalizeContent (resp_content response)), s1))"

definition logLine :: "agent_action_result \<Rightarrow> string" where
  "logLine result =
     ''- '' @ r_name result @ '': '' @ toUpperCase (statusName (r_status result)) @
     [CHR 0x20, CHR 0xE2, CHR 0x80, CHR 0x94, CHR 0x20] @ r_summary result @
     (if truthy (r_error result) then '' (error: '' @ the (r_error result) @ '')'' else [])"

definition answerMessages ::
  "'w services \<Rightarrow> string \<Rightarrow> string \<Rightarrow> agent_plan option \<Rightarrow> agent_action_result list
    \<Rightarrow> message list" where
  "answerMessages S question contextSummary plan actionResults =
     (let executionLog =
        (if length actionResults = 0 then ''No autonomous actions were executed.''
         else join [CHR 0x0A] (map logLine actionResults));
          planSummary =
        (case plan of
           Some p \<Rightarrow> jsonStringify S p
         | None \<Rightarrow> ''No plan generated (information-only response).'')
      in [(''system'',
           ''You are ProduSoft's workflow assistant. You MUST reflect the real execution results that were already performed. If something failed, explain why and recommend next steps. Never invent actions outside the execution log.''),
          (''system'', ''Operational context:'' @ [CHR 0x0A] @ contextSummary),
          (''system'', ''Agent plan:'' @ [CHR 0x0A] @ planSummary),
          (''system'', ''Execution log:'' @ [CHR 0x0A] @ executionLog),
          (''human'', question)])"

definition buildFinalAnswer ::
  "'w services \<Rightarrow> string \<Rightarrow> string \<Rightarrow> agent_plan option \<Rightarrow> agent_action_result list
    \<Rightarrow> 'w state \<Rightarrow> (string + string \<times> string) \<times> 'w state" where
  "buildFinalAnswer S question contextSummary plan actionResults s =
     (case invokeModel S (answerMessages S question contextSummary plan actionResults) s of
        (Inl err, s1) \<Rightarrow> (Inl err, s1)
      | (Inr response, s1) \<Rightarrow>
          (Inr (normalizeContent (resp_content response),
                (case resp_model response of Some m \<Rightarrow> m | None \<Rightarrow> OLLAMA_MODEL S)), s1))"

subsection \<open>The request pipeline\<close>

record agent_request =
  req_question :: "string option"
  req_token :: "string option"

datatype http_response =
    Answer string string "string option"
  | Failure nat string

definition allowedActionsFor :: "'w services \<Rightarrow> string set \<Rightarrow> 'w action_definition list" where
  "allowedActionsFor S normalizedRoles =
     filter (\<lambda>action. \<exists>role \<in> set (def_roles action). role \<in> normalizedRoles) (ACTION_LIST S)"

text \<open>The planning and execution step of the route: the plan, if one was generated, and
  the results of executing it.\<close>

definition planAndExecute ::
  "'w services \<Rightarrow> string \<Rightarrow> string \<Rightarrow> string \<Rightarrow> user_profile \<Rightarrow> 'w state
    \<Rightarrow> (string + agent_plan option \<times> agent_action_result list) \<times> 'w state" where
  "planAndExecute S token trimmedQuestion contextSummary userProfile s =
     (let normalizedRoles = normalizeRoles (p_roles userProfile);
          allowedActions = allowedActionsFor S normalizedRoles
      in if length allowedActions > 0 then
           (case generatePlan S trimmedQuestion contextSummary allowedActions userProfile s of
              (Inl err, s1) \<Rightarrow> (Inl err, s1)
            | (Inr agentPlan, s1) \<Rightarrow>
                if length (plan_actions agentPlan) > 0 then
                  (case executePlan S (plan_actions agentPlan)
                          \<lparr>ctx_token = token, ctx_username = p_username userProfile,
                           ctx_roles = normalizedRoles\<rparr> s1 of
                     (actionResults, s2) \<Rightarrow> (Inr (Some agentPlan, actionResults), s2))
                else (Inr (Some agentPlan, []), s1))
         else (Inr (None, []), s))"

text \<open>The body of the \<^verbatim>\<open>try\<close> of the route: \<open>Inl\<close> is the message of what it raised.\<close>

definition runAgent ::
  "'w services \<Rightarrow> string \<Rightarrow> string \<Rightarrow> 'w state
    \<Rightarrow> (string + string \<times> string \<times> string option) \<times> 'w state" where
  "runAgent S token question s =
     (let trimmedQuestion = take 4000 question in
      case buildWorkflowContext S token s of
        ((contextSummary, contextError), s1) \<Rightarrow>
          (case fetchUserProfile S token s1 of
             (Inl err, s2) \<Rightarrow> (Inl err, s2)
           | (Inr userProfile, s2) \<Rightarrow>
               (case planAndExecute S token trimmedQuestion contextSummary userProfile s2 of
                  (Inl err, s3) \<Rightarrow> (Inl err, s3)
                | (Inr (agentPlan, actionResults), s3) \<Rightarrow>
                    (case buildFinalAnswer S trimmedQuestion contextSummary agentPlan
                            actionResults s3 of
                       (Inl err, s4) \<Rightarrow> (Inl err, s4)
                     | (Inr (answer, model), s4) \<Rightarrow>
                         (Inr (answer, model, contextError), s4)))))"

definition POST :: "'w services \<Rightarrow> agent_request option \<Rightarrow> 'w state \<Rightarrow> http_response \<times> 'w state" where
  "POST S request s =
     (if OLLAMA_BASE_URL S = [] then
        (Failure 500 ''LANGCHAIN_OLLAMA_ENDPOINT (or OLLAMA_ENDPOINT) is not configured on the server.'', s)
      else
        (case request of
           None \<Rightarrow> (Failure 400 ''Invalid JSON payload.'', s)
         | Some payload \<Rightarrow>
             (let question = map_option trim (req_question payload) in
              if \<not> truthy question then (Failure 400 ''question is required.'', s)
              else if \<not> truthy (req_token payload) then
                (Failure 401 ''Authentication token is required for autonomous actions.'', s)
              else
                (case runAgent S (the (req_token payload)) (the question) s of
                   (Inl message, s1) \<Rightarrow> (Failure 502 message, s1)
                 | (Inr (answer, model, contextWarning), s1) \<Rightarrow>
                     (Answer answer model contextWarning, s1)))))"

subsection \<open>Field-for-field agreement of a bag with its validated arguments\<close>







subsection \<open>A small workflow service for the examples\<close>

text \<open>
  An in-memory service to run the route on: the world is the list of orders. Reading an
  order finds it by its id; a checklist call sets the flag of the named task and fails on
  a task the stage does not have; completing a stage fails while required tasks are
  pending; the token \<open>read-only\<close> may not write, and for the token \<open>flaky\<close> the call
  on task \<open>t4\<close> fails. The model answers the planning prompt
  (two messages) with \<open>planText\<close> and any other prompt with \<open>Done.\<close>. The clock
  knows four dates, with their times in milliseconds; any other text is no date.
\<close>

definition demoStage :: "stage_type \<Rightarrow> stage_state \<Rightarrow> checklist_item list \<Rightarrow> order_stage_status" where
  "demoStage stage st items =
     \<lparr>ss_id = 1, ss_stage = stage, ss_state = st, ss_assignee = None, ss_claimedAt = None,
      ss_startedAt = None, ss_completedAt = None, ss_serviceTimeMinutes = None,
      ss_notes = None, ss_exceptionReason = None, ss_supervisorNotes = None,
      ss_approvedBy = None, ss_updatedAt = None, ss_checklist = items\<rparr>"

definition demoOrder :: "int \<Rightarrow> string \<Rightarrow> int option \<Rightarrow> string \<Rightarrow> order_stage_status list \<Rightarrow> order_response" where
  "demoOrder i number prio created stages =
     \<lparr>o_id = i, o_orderNumber = number, o_priority = prio, o_currentStage = ASSEMBLY,
      o_overallState = IN_PROGRESS, o_createdAt = created, o_updatedAt = created,
      o_notes = None, o_stages = stages\<rparr>"

definition demoWorld :: "bool \<Rightarrow> bool \<Rightarrow> order_response list" where
  "demoWorld t1 t4 =
     [demoOrder 7 ''PO-7'' (Some 2) ''2024''
        [demoStage ASSEMBLY IN_PROGRESS
           [\<lparr>item_id = ''t1'', item_label = ''torque'', item_required = True, item_completed = t1\<rparr>,
            \<lparr>item_id = ''t2'', item_label = ''photo'', item_required = False, item_completed = False\<rparr>,
            \<lparr>item_id = ''t3'', item_label = ''label'', item_required = True, item_completed = True\<rparr>,
            \<lparr>item_id = ''t4'', item_label = ''seal'', item_required = True, item_completed = t4\<rparr>],
         demoStage PREPARATION COMPLETED []],
      demoOrder 9 ''PO-9'' (Some 5) ''2023-11'' [demoStage DELIVERY PENDING []],
      demoOrder 4 ''PO-4'' None [] []]"

definition demoOrders :: "order_response list" where
  "demoOrders = demoWorld False False"

definition demoUpdate ::
  "int \<Rightarrow> stage_type \<Rightarrow> (order_stage_status \<Rightarrow> string + order_stage_status)
    \<Rightarrow> order_response list \<Rightarrow> (string + order_stage_status) \<times> order_response list" where
  "demoUpdate orderId stage change w =
     (case find (\<lambda>order. o_id order = orderId) w of
        None \<Rightarrow> (Inl ''Order not found'', w)
      | Some order \<Rightarrow>
          (case find (\<lambda>st. ss_stage st = stage) (o_stages order) of
             None \<Rightarrow> (Inl ''Stage not found'', w)
           | Some st \<Rightarrow>
               (case change st of
                  Inl err \<Rightarrow> (Inl err, w)
                | Inr st' \<Rightarrow>
                    (Inr st',
                     map (\<lambda>order. if o_id order = orderId
                            then order\<lparr>o_stages :=
                                   map (\<lambda>x. if ss_stage x = stage then st' else x) (o_stages order)\<rparr>
                            else order) w))))"

definition demoStageJson ::
  "string \<Rightarrow> request \<Rightarrow> order_response list \<Rightarrow> (string + order_stage_status) \<times> order_response list" where
  "demoStageJson token req w =
     (if token = ''read-only'' then (Inl ''Forbidden'', w)
      else (case req of
              PatchChecklist orderId stage task flag \<Rightarrow>
                if token = ''flaky'' \<and> task = ''t4'' then (Inl ''Service unavailable'', w)
                else demoUpdate orderId stage
                  (\<lambda>st. if task \<in> set (map item_id (ss_checklist st))
                         then Inr (st\<lparr>ss_checklist :=
                                map (\<lambda>t. if item_id t = task then t\<lparr>item_completed := flag\<rparr> else t)
                                  (ss_checklist st)\<rparr>)
                         else Inl ''Checklist task not found'') w
            | PostComplete orderId stage assignee minutes notes \<Rightarrow>
                demoUpdate orderId stage
                  (\<lambda>st. if pendingTasks st = []
                         then Inr (st\<lparr>ss_state := COMPLETED, ss_assignee := Some assignee\<rparr>)
                         else Inl ''Required checklist tasks are incomplete'') w
            | _ \<Rightarrow> (Inl ''Not Found'', w)))"

definition demoOrderJson ::
  "string \<Rightarrow> request \<Rightarrow> order_response list \<Rightarrow> (string + order_response) \<times> order_response list" where
  "demoOrderJson token req w =
     (case req of
        GetOrder orderId \<Rightarrow>
          (case find (\<lambda>order. o_id order = orderId) w of
             Some order \<Rightarrow> (Inr order, w)
           | None \<Rightarrow> (Inl ''Order not found'', w))
      | _ \<Rightarrow> (Inl ''Not Found'', w))"

definition demoProfile :: "string \<Rightarrow> user_profile" where
  "demoProfile token =
     \<lparr>p_username = token,
      p_roles = (if token = ''operator'' then [''ROLE_OPERATOR'']
                 else if token = ''supervisor'' then [''ROLE_SUPERVISOR'']
                 else [''ROLE_AUDITOR''])\<rparr>"

definition demoGetTime :: "string \<Rightarrow> int option" where
  "demoGetTime =
     map_of [(''2023-11'', 1698796800000), (''2024'', 1704067200000),
             (''2024-01-05'', 1704412800000), (''2024-02-05'', 1707091200000)]"

definition demoQueue :: "order_response list" where
  "demoQueue =
     [demoOrder 1 ''PO-1'' (Some 1) ''2024-01-05'' [],
      demoOrder 2 ''PO-2'' (Some 1) ''pending'' [],
      demoOrder 3 ''PO-3'' (Some 1) ''2024-02-05'' [],
      demoOrder 4 ''PO-4'' (Some 3) ''2024-01-05'' [],
      demoOrder 5 ''PO-5'' (Some 3) ''2024-02-05'' []]"

definition demoZodMessage :: "zod_issue list \<Rightarrow> string" where
  "demoZodMessage issues =
     join ''; '' (map (\<lambda>issue. case issue of ZodIssue path code \<Rightarrow> code @ '' at '' @ join ''.'' path)
                   issues)"

definition demoServices :: "string \<Rightarrow> (order_response list) services" where
  "demoServices planText =
     \<lparr>orderListJson = (\<lambda>token req w. (Inr w, w)),
      orderJson = demoOrderJson,
      stageJson = demoStageJson,
      profileJson = (\<lambda>token req w. (Inr (demoProfile token), w)),
      modelInvoke = (\<lambda>messages w.
        (Inr \<lparr>resp_content = ContentString (if length messages = 2 then planText else ''Done.''),
              resp_model = None\<rparr>, w)),
      jsonParse = (\<lambda>s. if s = ''{}'' then Inr (JObj []) else Inl ''Unexpected token''),
      jsonStringify = (\<lambda>plan. ''{}''),
      zodMessage = demoZodMessage,
      dateGetTime = demoGetTime,
      OLLAMA_BASE_URL = ''https://ollama.com'',
      OLLAMA_MODEL = ''gpt-oss:20b-cloud''\<rparr>"

definition demoState :: "(order_response list) state" where
  "demoState = \<lparr>calls = [], world = demoOrders\<rparr>"

definition demoContext :: "string \<Rightarrow> string set \<Rightarrow> execution_context" where
  "demoContext token roles = \<lparr>ctx_token = token, ctx_username = ''ana'', ctx_roles = roles\<rparr>"

definition demoOperator :: execution_context where
  "demoOperator = demoContext ''operator'' {''OPERATOR''}"

definition demoReadOnly :: execution_context where
  "demoReadOnly = demoContext ''read-only'' {''OPERATOR''}"

definition demoFlaky :: execution_context where
  "demoFlaky = demoContext ''flaky'' {''OPERATOR''}"

definition demoSupervisor :: execution_context where
  "demoSupervisor = demoContext ''supervisor'' {''SUPERVISOR''}"

definition demoCompleteAction :: planned_action where
  "demoCompleteAction =
     \<lparr>pa_name = ''complete_stage'', pa_rationale = None,
      pa_arguments = JObj [(''orderId'', JNum 7), (''stage'', JStr ''ASSEMBLY'')]\<rparr>"

definition demoCompleteArgs :: complete_stage_args where
  "demoCompleteArgs =
     \<lparr>cs_orderId = 7, cs_stage = ASSEMBLY, cs_serviceTimeMinutes = None, cs_notes = None\<rparr>"

definition demoTasks :: "checklist_task list" where
  "demoTasks = [\<lparr>taskId = ''t1'', completed = True\<rparr>, \<lparr>taskId = ''t4'', completed = True\<rparr>]"

definition demoFetched :: "(order_response list) state" where
  "demoFetched = \<lparr>calls = [Fetch (GetOrder 7)], world = demoOrders\<rparr>"

definition demoUnknownAction :: planned_action where
  "demoUnknownAction = \<lparr>pa_name = ''delete_order'', pa_rationale = None, pa_arguments = JObj []\<rparr>"

definition demoUpdateAction :: planned_action where
  "demoUpdateAction =
     \<lparr>pa_name = ''update_stage_checklist'', pa_rationale = None,
      pa_arguments = JObj [(''orderId'', JNum 7), (''stage'', JStr ''ASSEMBLY''),
        (''tasks'', JArr [JObj [(''taskId'', JStr ''t1''), (''completed'', JBool True)],
                         JObj [(''taskId'', JStr ''t9''), (''completed'', JBool True)],
                         JObj [(''taskId'', JStr ''t4''), (''completed'', JBool True)]])]\<rparr>"

definition demoUpdateArgs :: update_checklist_args where
  "demoUpdateArgs =
     \<lparr>uc_orderId = 7, uc_stage = ASSEMBLY,
      uc_tasks = [\<lparr>taskId = ''t1'', completed = True\<rparr>] @ \<lparr>taskId = ''t9'', completed = True\<rparr> #
                 [\<lparr>taskId = ''t4'', completed = True\<rparr>]\<rparr>"




definition demoRequest :: agent_request where
  "demoRequest = \<lparr>req_question = Some ''  status? '', req_token = Some ''auditor''\<rparr>"

definition demoAnswerMessages :: "message list" where
  "demoAnswerMessages =
     answerMessages (demoServices []) (take 4000 (trim ''  status? ''))
       (contextSummaryOf (dateGetTime (demoServices [])) demoOrders) None []"


section \<open>Properties\<close>

subsection \<open>Role normalisation\<close>

text \<open>
  C9. For every list of role strings, a role is in the normalised set exactly when it is
  OPERATOR or SUPERVISOR and some entry of the list, with the prefix \<^verbatim>\<open>ROLE_\<close> removed and
  then upper-cased, equals it; an entry that normalises to anything else leaves the set as
  if it were not in the list. The function is total: no entry makes it fail.
\<close>

theorem normalizeRoles_exact:
  "(r \<in> normalizeRoles roles \<longleftrightarrow>
      (r = ''OPERATOR'' \<or> r = ''SUPERVISOR'') \<and>
      (\<exists>entry \<in> set roles. toUpperCase (stripRolePrefix entry) = r)) \<and>
   (toUpperCase (stripRolePrefix entry') \<notin> {''OPERATOR'', ''SUPERVISOR''} \<longrightarrow>
      normalizeRoles (before @ entry' # after) = normalizeRoles (before @ after))"
proof -
  let ?normal = "\<lambda>entry. toUpperCase (stripRolePrefix entry)"
  have member: "r \<in> normalizeRoles roles \<longleftrightarrow> isRole r \<and> r \<in> ?normal ` set roles"
    by (auto simp: normalizeRoles_def)
  have kept: "r \<in> normalizeRoles roles \<longleftrightarrow>
      (r = ''OPERATOR'' \<or> r = ''SUPERVISOR'') \<and> (\<exists>entry \<in> set roles. ?normal entry = r)"
    unfolding member isRole_def by auto
  have dropped: "normalizeRoles (before @ entry' # after) = normalizeRoles (before @ after)"
    if "?normal entry' \<notin> {''OPERATOR'', ''SUPERVISOR''}"
  proof -
    from that have "\<not> isRole (?normal entry')"
      by (simp add: isRole_def)
    then show ?thesis
      by (simp add: normalizeRoles_def)
  qed
  from kept dropped show ?thesis by blast
qed

theorem normalizeRoles_exact_witness:
  "''OPERATOR'' \<in> normalizeRoles [''ROLE_operator'', ''role_supervisor'', ''ADMIN''] \<and>
   ''SUPERVISOR'' \<notin> normalizeRoles [''ROLE_operator'', ''role_supervisor'', ''ADMIN''] \<and>
   toUpperCase (stripRolePrefix ''ADMIN'') \<notin> {''OPERATOR'', ''SUPERVISOR''} \<and>
   normalizeRoles ([''ROLE_operator''] @ ''ADMIN'' # [''x'']) =
     normalizeRoles ([''ROLE_operator''] @ [''x''])"
proof -
  have b: "toUpperCase (stripRolePrefix ''ROLE_operator'') = ''OPERATOR''"
    by (simp add: toUpperCase_def toUpperChar_def stripRolePrefix_def)
  have c: "toUpperCase (stripRolePrefix ''role_supervisor'') = ''ROLE_SUPERVISOR''"
    by (simp add: toUpperCase_def toUpperChar_def stripRolePrefix_def)
  have d: "toUpperCase (stripRolePrefix ''ADMIN'') = ''ADMIN''"
    by (simp add: toUpperCase_def toUpperChar_def stripRolePrefix_def)
  show ?thesis
    using normalizeRoles_exact [of "''OPERATOR''" "[''ROLE_operator'', ''role_supervisor'', ''ADMIN'']"
        "''ADMIN''" "[''ROLE_operator'']" "[''x'']"]
      normalizeRoles_exact [of "''SUPERVISOR''" "[''ROLE_operator'', ''role_supervisor'', ''ADMIN'']"
        "''ADMIN''" "[''ROLE_operator'']" "[''x'']"]
    by (simp add: b c d)
qed

subsection \<open>Searching a string\<close>























subsection \<open>The catalogue as a map\<close>

lemma fold_upd_find:
  "distinct (map key xs) \<Longrightarrow>
   fold (\<lambda>a m. m(key a \<mapsto> a)) xs m0 k =
     (case find (\<lambda>a. key a = k) xs of Some a \<Rightarrow> Some a | None \<Rightarrow> m0 k)"
proof (induction xs arbitrary: m0)
  case Nil
  then show ?case by simp
next
  case (Cons x xs)
  show ?case
  proof (cases "key x = k")
    case True
    with Cons.prems have "find (\<lambda>a. key a = k) xs = None"
      by (force simp: find_None_iff image_iff)
    with True Cons show ?thesis by simp
  next
    case False
    with Cons show ?thesis by (simp split: option.splits)
  qed
qed

lemma find_distinct_key:
  "distinct (map key xs) \<Longrightarrow> d \<in> set xs \<Longrightarrow> find (\<lambda>a. key a = key d) xs = Some d"
  by (induction xs) (auto simp: image_iff)

lemma action_names: "map def_name (ACTION_LIST S) = ACTION_NAMES"
  by (simp add: ACTION_LIST_def ACTION_DEFINITIONS_def ACTION_NAMES_def)

lemma distinct_ACTION_NAMES: "distinct ACTION_NAMES"
  by (simp add: ACTION_NAMES_def)

lemma ACTION_MAP_find:
  "ACTION_MAP S name = find (\<lambda>action. def_name action = name) (ACTION_LIST S)"
proof -
  have "distinct (map def_name (ACTION_LIST S))"
    by (simp add: action_names distinct_ACTION_NAMES)
  then show ?thesis
    by (simp add: ACTION_MAP_def fold_upd_find split: option.splits)
qed

lemma ACTION_MAP_None:
  "ACTION_MAP S name = None \<longleftrightarrow> name \<notin> set ACTION_NAMES"
proof -
  have "ACTION_MAP S name = None \<longleftrightarrow> name \<notin> set (map def_name (ACTION_LIST S))"
    unfolding ACTION_MAP_find find_None_iff by auto
  then show ?thesis by (simp only: action_names)
qed

lemma ACTION_MAP_Some:
  "ACTION_MAP S name = Some definition \<Longrightarrow> definition \<in> set (ACTION_LIST S) \<and> def_name definition = name"
  by (auto simp: ACTION_MAP_find find_Some_iff)

lemma ACTION_MAP_member:
  assumes "definition \<in> set (ACTION_LIST S)"
  shows "ACTION_MAP S (def_name definition) = Some definition"
proof -
  have "distinct (map def_name (ACTION_LIST S))"
    by (simp add: action_names distinct_ACTION_NAMES)
  then show ?thesis
    unfolding ACTION_MAP_find using assms by (rule find_distinct_key)
qed

subsection \<open>The executor\<close>

lemma executeLoop_acc:
  "executeLoop S ctx actions results s =
     (results @ fst (executeLoop S ctx actions [] s), snd (executeLoop S ctx actions [] s))"
proof (induction actions arbitrary: results s)
  case Nil
  then show ?case by simp
next
  case (Cons a actions)
  obtain entries s1 where a: "executeAction S ctx a s = (entries, s1)"
    by (cases "executeAction S ctx a s")
  show ?case
    using Cons.IH [of "results @ entries" s1] Cons.IH [of "entries" s1]
    by (simp add: a)
qed

lemma executePlan_Nil: "executePlan S [] ctx s = ([], s)"
  by (simp add: executePlan_def)

lemma executePlan_Cons:
  "executePlan S (a # actions) ctx s =
     (fst (executeAction S ctx a s) @ fst (executePlan S actions ctx (snd (executeAction S ctx a s))),
      snd (executePlan S actions ctx (snd (executeAction S ctx a s))))"
proof -
  obtain entries s1 where a: "executeAction S ctx a s = (entries, s1)"
    by (cases "executeAction S ctx a s")
  show ?thesis
    using executeLoop_acc [of S ctx actions entries s1]
    by (simp add: executePlan_def a)
qed

lemma executePlan_append:
  "executePlan S (xs @ ys) ctx s =
     (fst (executePlan S xs ctx s) @ fst (executePlan S ys ctx (snd (executePlan S xs ctx s))),
      snd (executePlan S ys ctx (snd (executePlan S xs ctx s))))"
proof (induction xs arbitrary: s)
  case Nil
  then show ?case by (simp add: executePlan_Nil)
next
  case (Cons a xs)
  show ?case
    by (simp add: executePlan_Cons Cons.IH)
qed

lemma executePlan_around:
  assumes "executePlan S before ctx s = (log1, s1)"
    and "executeAction S ctx action s1 = (entries, s2)"
  shows "executePlan S (before @ action # after) ctx s =
           (log1 @ entries @ fst (executePlan S after ctx s2), snd (executePlan S after ctx s2))"
  by (simp add: executePlan_append executePlan_Cons assms)

lemma fetch_calls:
  "fetchWithAuthJson endpoint req token s = (r, s1) \<Longrightarrow>
     calls s1 = calls s @ [Fetch req] \<and> (r, world s1) = endpoint token req (world s)"
  by (auto simp: fetchWithAuthJson_def split: prod.splits)

lemma patchTasks_success_calls:
  "patchTasks S ctx orderId stage tasks lastStatus s = (Inr l, s1) \<Longrightarrow>
     calls s1 = calls s @ patchCalls orderId stage tasks"
proof (induction tasks arbitrary: lastStatus s)
  case Nil
  then show ?case by (simp add: patchCalls_def)
next
  case (Cons t tasks)
  obtain r s' where f: "fetchWithAuthJson (stageJson S)
      (PatchChecklist orderId stage (taskId t) (completed t)) (ctx_token ctx) s = (r, s')"
    by (cases "fetchWithAuthJson (stageJson S)
      (PatchChecklist orderId stage (taskId t) (completed t)) (ctx_token ctx) s")
  with Cons.prems obtain st where r: "r = Inr st"
    by (cases r) auto
  with f Cons.prems have "patchTasks S ctx orderId stage tasks (Some st) s' = (Inr l, s1)"
    by simp
  from Cons.IH [OF this] fetch_calls [OF f] show ?case
    by (simp add: patchCalls_def)
qed

lemma patchTasks_failure_calls:
  "patchTasks S ctx orderId stage tasks lastStatus s = (Inl err, s1) \<Longrightarrow>
     \<exists>k < length tasks. calls s1 = calls s @ patchCalls orderId stage (take (Suc k) tasks)"
proof (induction tasks arbitrary: lastStatus s)
  case Nil
  then show ?case by simp
next
  case (Cons t tasks)
  obtain r s' where f: "fetchWithAuthJson (stageJson S)
      (PatchChecklist orderId stage (taskId t) (completed t)) (ctx_token ctx) s = (r, s')"
    by (cases "fetchWithAuthJson (stageJson S)
      (PatchChecklist orderId stage (taskId t) (completed t)) (ctx_token ctx) s")
  show ?case
  proof (cases r)
    case (Inl e)
    with f Cons.prems have "s1 = s'" by simp
    with fetch_calls [OF f] have "calls s1 = calls s @ patchCalls orderId stage (take (Suc 0) (t # tasks))"
      by (simp add: patchCalls_def)
    then show ?thesis by blast
  next
    case (Inr st)
    with f Cons.prems have "patchTasks S ctx orderId stage tasks (Some st) s' = (Inl err, s1)"
      by simp
    from Cons.IH [OF this] obtain k where k: "k < length tasks"
      "calls s1 = calls s' @ patchCalls orderId stage (take (Suc k) tasks)"
      by blast
    with fetch_calls [OF f]
    have "calls s1 = calls s @ patchCalls orderId stage (take (Suc (Suc k)) (t # tasks))"
      by (simp add: patchCalls_def)
    with k(1) show ?thesis
      by (intro exI [of _ "Suc k"]) simp
  qed
qed

lemma patchTasks_append:
  "patchTasks S ctx orderId stage (xs @ ys) lastStatus s =
     (case patchTasks S ctx orderId stage xs lastStatus s of
        (Inl err, s1) \<Rightarrow> (Inl err, s1)
      | (Inr l, s1) \<Rightarrow> patchTasks S ctx orderId stage ys l s1)"
proof (induction xs arbitrary: lastStatus s)
  case Nil
  then show ?case by simp
next
  case (Cons t xs)
  show ?case
    by (simp add: Cons.IH split: prod.splits sum.splits)
qed

lemma complete_stage_entry:
  "\<exists>definition. ACTION_MAP S ''complete_stage'' = Some definition \<and>
     def_name definition = ''complete_stage'' \<and>
     def_schema definition = (\<lambda>j. map_sum id CompleteStageArgs (CompleteStageSchema j)) \<and>
     def_handler definition = (\<lambda>data. case data of CompleteStageArgs args \<Rightarrow> complete_stage_handler S args
                                | _ \<Rightarrow> wrongArguments)"
proof -
  let ?d = "ACTION_LIST S ! 7"
  have m: "?d \<in> set (ACTION_LIST S)"
    by (simp add: ACTION_LIST_def ACTION_DEFINITIONS_def)
  have n: "def_name ?d = ''complete_stage''"
    by (simp add: ACTION_LIST_def ACTION_DEFINITIONS_def)
  have "ACTION_MAP S ''complete_stage'' = Some ?d"
    using ACTION_MAP_member [OF m] by (simp only: n)
  moreover have "def_schema ?d = (\<lambda>j. map_sum id CompleteStageArgs (CompleteStageSchema j))"
    by (simp add: ACTION_LIST_def ACTION_DEFINITIONS_def)
  moreover have "def_handler ?d = (\<lambda>data. case data of CompleteStageArgs args \<Rightarrow> complete_stage_handler S args
                                | _ \<Rightarrow> wrongArguments)"
    by (simp add: ACTION_LIST_def ACTION_DEFINITIONS_def)
  ultimately show ?thesis using n by blast
qed

lemma update_stage_checklist_entry:
  "\<exists>definition. ACTION_MAP S ''update_stage_checklist'' = Some definition \<and>
     def_name definition = ''update_stage_checklist'' \<and>
     def_schema definition = (\<lambda>j. map_sum id UpdateChecklistArgs (UpdateChecklistSchema j)) \<and>
     def_handler definition = (\<lambda>data. case data of UpdateChecklistArgs args \<Rightarrow> update_stage_checklist_handler S args
                                | _ \<Rightarrow> wrongArguments)"
proof -
  let ?d = "ACTION_LIST S ! 6"
  have m: "?d \<in> set (ACTION_LIST S)"
    by (simp add: ACTION_LIST_def ACTION_DEFINITIONS_def)
  have n: "def_name ?d = ''update_stage_checklist''"
    by (simp add: ACTION_LIST_def ACTION_DEFINITIONS_def)
  have "ACTION_MAP S ''update_stage_checklist'' = Some ?d"
    using ACTION_MAP_member [OF m] by (simp only: n)
  moreover have "def_schema ?d = (\<lambda>j. map_sum id UpdateChecklistArgs (UpdateChecklistSchema j))"
    by (simp add: ACTION_LIST_def ACTION_DEFINITIONS_def)
  moreover have "def_handler ?d = (\<lambda>data. case data of UpdateChecklistArgs args \<Rightarrow> update_stage_checklist_handler S args
                                | _ \<Rightarrow> wrongArguments)"
    by (simp add: ACTION_LIST_def ACTION_DEFINITIONS_def)
  ultimately show ?thesis using n by blast
qed

lemma executeAction_complete_stage:
  assumes "pa_name action = ''complete_stage''"
    and "CompleteStageSchema (orEmptyObject (pa_arguments action)) = Inr args"
  shows "executeAction S ctx action s =
     (case ensureChecklistBeforeCompletion S args ctx s of
        (entries, ready, s1) \<Rightarrow>
          if \<not> ready then (entries, s1)
          else (case complete_stage_handler S args ctx s1 of
                  (Inr result, s2) \<Rightarrow> (entries @ [result], s2)
                | (Inl err, s2) \<Rightarrow> (entries @ [failedAction ''complete_stage'' err], s2)))"
proof -
  from complete_stage_entry [of S] obtain d where d:
    "ACTION_MAP S ''complete_stage'' = Some d" "def_name d = ''complete_stage''"
    "def_schema d = (\<lambda>j. map_sum id CompleteStageArgs (CompleteStageSchema j))"
    "def_handler d = (\<lambda>data. case data of CompleteStageArgs args \<Rightarrow> complete_stage_handler S args
                                | _ \<Rightarrow> wrongArguments)"
    by blast
  show ?thesis
    by (simp add: executeAction_def assms d invokeHandler_def split: prod.splits sum.splits)
qed

lemma ensureChecklist_pending:
  assumes "orderJson S (ctx_token ctx) (GetOrder (cs_orderId args)) (world s) = (Inr order, w1)"
    and "find (\<lambda>status. ss_stage status = cs_stage args) (o_stages order) = Some stageStatus"
    and "pendingTasks stageStatus \<noteq> []"
  shows "ensureChecklistBeforeCompletion S args ctx s =
     (let s1 = \<lparr>calls = calls s @ [Fetch (GetOrder (cs_orderId args))], world = w1\<rparr> in
      if ''OPERATOR'' \<notin> ctx_roles ctx then
        ([\<lparr>r_name = ''update_stage_checklist'', r_status = error,
           r_summary = ''Checklist tasks are pending, but the current user is not an operator and cannot update them automatically.'',
           r_data = None, r_error = None\<rparr>], False, s1)
      else
        (case update_stage_checklist_handler S
                \<lparr>uc_orderId = cs_orderId args, uc_stage = cs_stage args,
                 uc_tasks = map (\<lambda>task. \<lparr>taskId = item_id task, completed = True\<rparr>)
                              (pendingTasks stageStatus)\<rparr> ctx s1 of
           (Inl err, s2) \<Rightarrow> ([checklistFailure err], False, s2)
         | (Inr updateResult, s2) \<Rightarrow>
             if r_status updateResult \<noteq> success then ([updateResult], False, s2)
             else ([updateResult], True, s2)))"
proof -
  from update_stage_checklist_entry [of S] obtain d where d:
    "ACTION_MAP S ''update_stage_checklist'' = Some d"
    "def_handler d = (\<lambda>data. case data of UpdateChecklistArgs args \<Rightarrow> update_stage_checklist_handler S args
                                | _ \<Rightarrow> wrongArguments)"
    by blast
  show ?thesis
    using assms
    by (simp add: ensureChecklistBeforeCompletion_def fetchWithAuthJson_def d Let_def
        split: prod.splits sum.splits)
qed

lemma update_handler_operator:
  assumes "''OPERATOR'' \<in> ctx_roles ctx"
    and "update_stage_checklist_handler S a ctx s = (outcome, s1)"
  shows "case outcome of
           Inr u \<Rightarrow> r_name u = ''update_stage_checklist'' \<and> r_status u = success \<and>
                    calls s1 = calls s @ patchCalls (uc_orderId a) (uc_stage a) (uc_tasks a)
         | Inl err \<Rightarrow> \<exists>k<length (uc_tasks a).
                    calls s1 = calls s @ patchCalls (uc_orderId a) (uc_stage a) (take (Suc k) (uc_tasks a))"
proof -
  obtain r s' where p: "patchTasks S ctx (uc_orderId a) (uc_stage a) (uc_tasks a) None s = (r, s')"
    by (cases "patchTasks S ctx (uc_orderId a) (uc_stage a) (uc_tasks a) None s")
  show ?thesis
  proof (cases r)
    case (Inl err)
    with p assms have "outcome = Inl err" "s1 = s'"
      by (simp_all add: update_stage_checklist_handler_def)
    with patchTasks_failure_calls [of S ctx _ _ _ None s err s'] p Inl show ?thesis by simp
  next
    case (Inr l)
    with p assms have "\<exists>u. outcome = Inr u \<and> r_name u = ''update_stage_checklist'' \<and> r_status u = success" "s1 = s'"
      by (auto simp add: update_stage_checklist_handler_def)
    with patchTasks_success_calls [of S ctx _ _ _ None s l s'] p Inr show ?thesis by auto
  qed
qed

lemma complete_handler_calls:
  "complete_stage_handler S args ctx s = (attempt, s1) \<Longrightarrow>
     calls s1 = calls s @ [Fetch (PostComplete (cs_orderId args) (cs_stage args) (ctx_username ctx)
        (case cs_serviceTimeMinutes args of Some m \<Rightarrow> m | None \<Rightarrow> 30) (cs_notes args))]"
  by (auto simp: complete_stage_handler_def fetchWithAuthJson_def Let_def split: prod.splits sum.splits)

text \<open>
  C2. A plan holds a \<open>complete_stage\<close> action with valid arguments; when its turn comes the
  order is read, the target stage is found and has pending required tasks, and the
  caller's roles do not contain OPERATOR. Then the action adds exactly one entry, of status
  error; the only call made for the action is the reading of the order, so the handler of
  \<open>complete_stage\<close> (whose one call is the POST on \<open>/complete\<close>) is not invoked; and the rest
  of the plan is executed from there.
\<close>

theorem complete_stage_blocked_without_operator:
  assumes "pa_name action = ''complete_stage''"
    and "CompleteStageSchema (orEmptyObject (pa_arguments action)) = Inr args"
    and "executePlan S before ctx s = (log1, s1)"
    and "orderJson S (ctx_token ctx) (GetOrder (cs_orderId args)) (world s1) = (Inr order, w2)"
    and "find (\<lambda>status. ss_stage status = cs_stage args) (o_stages order) = Some stageStatus"
    and "pendingTasks stageStatus \<noteq> []"
    and "''OPERATOR'' \<notin> ctx_roles ctx"
    and "entry = \<lparr>r_name = ''update_stage_checklist'', r_status = error,
           r_summary = ''Checklist tasks are pending, but the current user is not an operator and cannot update them automatically.'',
           r_data = None, r_error = None\<rparr>"
    and "s2 = \<lparr>calls = calls s1 @ [Fetch (GetOrder (cs_orderId args))], world = w2\<rparr>"
  shows "executeAction S ctx action s1 = ([entry], s2) \<and> r_status (last [entry]) = error \<and>
         executePlan S (before @ action # after) ctx s =
           (log1 @ [entry] @ fst (executePlan S after ctx s2), snd (executePlan S after ctx s2))"
proof -
  have a: "executeAction S ctx action s1 = ([entry], s2)"
    using assms(7,8,9)
    by (simp add: executeAction_complete_stage [OF assms(1,2)]
        ensureChecklist_pending [OF assms(4,5,6)] Let_def)
  from executePlan_around [OF assms(3) a] a assms(8) show ?thesis by simp
qed

text \<open>
  C1, as amended. A plan holds a \<open>complete_stage\<close> action with valid arguments whose target
  stage has N > 0 required tasks that are not completed, and the caller's roles contain
  OPERATOR. The checklist handler is then run on exactly those N tasks, each to be marked
  completed, in the order of the checklist. When every call of it succeeds, its result,
  named \<open>update_stage_checklist\<close> and of status success, is in the log immediately before
  the result of the completion attempt, and the calls made are one PATCH per pending task
  and no other, followed by the POST of the completion. When one of its calls raises, the
  log has the error entry of the checklist step and no completion is attempted: the PATCH
  calls made are those of a prefix of the N tasks.
\<close>

theorem complete_stage_injects_checklist_update:
  assumes "pa_name action = ''complete_stage''"
    and "CompleteStageSchema (orEmptyObject (pa_arguments action)) = Inr args"
    and "executePlan S before ctx s = (log1, s1)"
    and "orderJson S (ctx_token ctx) (GetOrder (cs_orderId args)) (world s1) = (Inr order, w2)"
    and "find (\<lambda>status. ss_stage status = cs_stage args) (o_stages order) = Some stageStatus"
    and "pendingTasks stageStatus \<noteq> []"
    and "''OPERATOR'' \<in> ctx_roles ctx"
    and "tasks = map (\<lambda>task. \<lparr>taskId = item_id task, completed = True\<rparr>) (pendingTasks stageStatus)"
    and "update_stage_checklist_handler S
           \<lparr>uc_orderId = cs_orderId args, uc_stage = cs_stage args, uc_tasks = tasks\<rparr> ctx
           \<lparr>calls = calls s1 @ [Fetch (GetOrder (cs_orderId args))], world = w2\<rparr> = (outcome, s3)"
    and "complete_stage_handler S args ctx s3 = (attempt, s4)"
  shows "case outcome of
           Inr injected \<Rightarrow>
             r_name injected = ''update_stage_checklist'' \<and> r_status injected = success \<and>
             calls s3 = calls s1 @ Fetch (GetOrder (cs_orderId args)) #
                          patchCalls (cs_orderId args) (cs_stage args) tasks \<and>
             calls s4 = calls s3 @ [Fetch (PostComplete (cs_orderId args) (cs_stage args)
                          (ctx_username ctx)
                          (case cs_serviceTimeMinutes args of Some m \<Rightarrow> m | None \<Rightarrow> 30)
                          (cs_notes args))] \<and>
             executePlan S (before @ action # after) ctx s =
               (log1 @
                [injected,
                 case attempt of Inr result \<Rightarrow> result
                 | Inl err \<Rightarrow> failedAction ''complete_stage'' err] @
                fst (executePlan S after ctx s4), snd (executePlan S after ctx s4))
         | Inl err \<Rightarrow>
             (\<exists>k<length tasks.
                calls s3 = calls s1 @ Fetch (GetOrder (cs_orderId args)) #
                             patchCalls (cs_orderId args) (cs_stage args) (take (Suc k) tasks)) \<and>
             executePlan S (before @ action # after) ctx s =
               (log1 @ [checklistFailure err] @ fst (executePlan S after ctx s3),
                snd (executePlan S after ctx s3))"
proof (cases outcome)
  case (Inl err)
  have a: "executeAction S ctx action s1 = ([checklistFailure err], s3)"
    using assms(7,8,9) Inl
    by (simp add: executeAction_complete_stage [OF assms(1,2)]
        ensureChecklist_pending [OF assms(4,5,6)] Let_def)
  from update_handler_operator [OF assms(7,9)] Inl executePlan_around [OF assms(3) a]
  show ?thesis by simp
next
  case (Inr injected)
  from update_handler_operator [OF assms(7,9)] Inr
  have u: "r_name injected = ''update_stage_checklist''" "r_status injected = success"
    "calls s3 = calls s1 @ Fetch (GetOrder (cs_orderId args)) #
                          patchCalls (cs_orderId args) (cs_stage args) tasks"
    by simp_all
  have a: "executeAction S ctx action s1 =
      ([injected, case attempt of Inr result \<Rightarrow> result
                  | Inl err \<Rightarrow> failedAction ''complete_stage'' err], s4)"
    using assms(7,8,9,10) Inr u(2)
    by (simp add: executeAction_complete_stage [OF assms(1,2)]
        ensureChecklist_pending [OF assms(4,5,6)] Let_def split: sum.splits)
  from u complete_handler_calls [OF assms(10)] executePlan_around [OF assms(3) a] Inr
  show ?thesis by simp
qed

subsection \<open>The examples\<close>

lemma demo_args:
  "CompleteStageSchema (orEmptyObject (pa_arguments demoCompleteAction)) = Inr demoCompleteArgs"
  by (simp add: demoCompleteAction_def demoCompleteArgs_def orEmptyObject_def CompleteStageSchema_def
      zObject_def zOrderId_def zInt_def failedChecks_def isInteger_def zPositive_def zStage_def
      zEnum_def STAGE_ORDER_def zOptional_def zNotes_def)

lemma demo_order:
  "orderJson (demoServices t) token (GetOrder (cs_orderId demoCompleteArgs)) (world demoState) =
     (Inr (hd demoOrders), demoOrders)"
  by (simp add: demoServices_def demoOrderJson_def demoCompleteArgs_def demoState_def demoOrders_def
      demoWorld_def demoOrder_def)

lemma demo_stage:
  "find (\<lambda>status. ss_stage status = cs_stage demoCompleteArgs) (o_stages (hd demoOrders)) =
     Some (hd (o_stages (hd demoOrders)))"
  by (simp add: demoCompleteArgs_def demoOrders_def demoWorld_def demoOrder_def demoStage_def)

lemma demo_pending:
  "pendingTasks (hd (o_stages (hd demoOrders))) =
     [\<lparr>item_id = ''t1'', item_label = ''torque'', item_required = True, item_completed = False\<rparr>,
      \<lparr>item_id = ''t4'', item_label = ''seal'', item_required = True, item_completed = False\<rparr>]"
  by (simp add: pendingTasks_def demoOrders_def demoWorld_def demoOrder_def demoStage_def)

theorem complete_stage_blocked_without_operator_witness:
  "executePlan (demoServices []) ([] @ demoCompleteAction # []) demoSupervisor demoState =
   ([\<lparr>r_name = ''update_stage_checklist'', r_status = error,
      r_summary = ''Checklist tasks are pending, but the current user is not an operator and cannot update them automatically.'',
      r_data = None, r_error = None\<rparr>],
    \<lparr>calls = [Fetch (GetOrder 7)], world = demoOrders\<rparr>)"
proof -
  have name: "pa_name demoCompleteAction = ''complete_stage''"
    by (simp add: demoCompleteAction_def)
  have before: "executePlan (demoServices []) [] demoSupervisor demoState = ([], demoState)"
    by (simp add: executePlan_def)
  have order: "orderJson (demoServices []) (ctx_token demoSupervisor)
      (GetOrder (cs_orderId demoCompleteArgs)) (world demoState) = (Inr (hd demoOrders), demoOrders)"
    by (rule demo_order)
  have pending: "pendingTasks (hd (o_stages (hd demoOrders))) \<noteq> []"
    by (simp add: demo_pending)
  have role: "''OPERATOR'' \<notin> ctx_roles demoSupervisor"
    by (simp add: demoSupervisor_def demoContext_def)
  from complete_stage_blocked_without_operator [OF name demo_args before order demo_stage pending role
      refl refl, of "[]"]
  show ?thesis
    by (simp add: executePlan_def demoState_def demoCompleteArgs_def)
qed

subsection \<open>Failure isolation\<close>

lemma invokeHandler_single:
  "\<exists>entry s1. invokeHandler definition name data ctx s = ([entry], s1)"
  by (auto simp: invokeHandler_def split: prod.splits sum.splits)

lemma ensureChecklist_not_ready:
  "ensureChecklistBeforeCompletion S args ctx s = (entries, False, s1) \<Longrightarrow> entries \<noteq> []"
  by (auto simp: ensureChecklistBeforeCompletion_def Let_def
      split: prod.splits sum.splits option.splits if_splits)

lemma executeAction_nonempty: "fst (executeAction S ctx action s) \<noteq> []"
proof (cases "ACTION_MAP S (pa_name action)")
  case None
  then show ?thesis by (simp add: executeAction_def)
next
  case (Some d)
  show ?thesis
  proof (cases "def_schema d (orEmptyObject (pa_arguments action))")
    case (Inl issues)
    with Some show ?thesis by (simp add: executeAction_def)
  next
    case (Inr data)
    obtain e s1 where h: "invokeHandler d (pa_name action) data ctx s = ([e], s1)"
      using invokeHandler_single by blast
    show ?thesis
    proof (cases "def_name d = ''complete_stage'' \<and> (\<exists>args. data = CompleteStageArgs args)")
      case False
      with Some Inr h show ?thesis
        by (cases data) (auto simp: executeAction_def)
    next
      case True
      then obtain args where args: "data = CompleteStageArgs args" by blast
      obtain entries ready s2 where g: "ensureChecklistBeforeCompletion S args ctx s = (entries, ready, s2)"
        by (cases "ensureChecklistBeforeCompletion S args ctx s") auto
      obtain e' s3 where h': "invokeHandler d (pa_name action) data ctx s2 = ([e'], s3)"
        using invokeHandler_single by blast
      show ?thesis
      proof (cases ready)
        case True
        with Some Inr args g h' \<open>def_name d = ''complete_stage'' \<and> _\<close> show ?thesis
          by (simp add: executeAction_def)
      next
        case False
        with g have "entries \<noteq> []" by (auto dest: ensureChecklist_not_ready)
        with Some Inr args g False \<open>def_name d = ''complete_stage'' \<and> _\<close> show ?thesis
          by (simp add: executeAction_def)
      qed
    qed
  qed
qed

lemma executePlan_length: "length actions \<le> length (fst (executePlan S actions ctx s))"
proof (induction actions arbitrary: s)
  case Nil
  then show ?case by simp
next
  case (Cons a actions)
  have "1 \<le> length (fst (executeAction S ctx a s))"
    using executeAction_nonempty [of S ctx a s] by (cases "fst (executeAction S ctx a s)") auto
  with Cons [of "snd (executeAction S ctx a s)"] show ?case
    by (simp add: executePlan_Cons)
qed

text \<open>
  C4. A planned action whose name is not in the catalogue adds exactly one entry, of status
  error and with the action's name, makes no call and leaves the state as it is; the
  actions after it are executed. For every planned action, whatever it is, the log of the
  plan is the log before it, its own entries, then the log of the actions after it: the
  executor has no way out of the loop, and every planned action leaves at least one entry.
\<close>

theorem unknown_action_isolated:
  assumes "executePlan S before ctx s = (log1, s1)"
  shows "(pa_name action \<notin> set ACTION_NAMES \<longrightarrow>
            executeAction S ctx action s1 = ([unsupportedAction (pa_name action)], s1) \<and>
            r_name (unsupportedAction (pa_name action)) = pa_name action \<and>
            r_status (unsupportedAction (pa_name action)) = error \<and>
            executePlan S (before @ action # after) ctx s =
              (log1 @ [unsupportedAction (pa_name action)] @ fst (executePlan S after ctx s1),
               snd (executePlan S after ctx s1))) \<and>
         executePlan S (before @ action # after) ctx s =
           (log1 @ fst (executeAction S ctx action s1) @
              fst (executePlan S after ctx (snd (executeAction S ctx action s1))),
            snd (executePlan S after ctx (snd (executeAction S ctx action s1)))) \<and>
         fst (executeAction S ctx action s1) \<noteq> [] \<and>
         length (before @ action # after) \<le>
           length (fst (executePlan S (before @ action # after) ctx s))"
proof -
  have general: "executePlan S (before @ action # after) ctx s =
           (log1 @ fst (executeAction S ctx action s1) @
              fst (executePlan S after ctx (snd (executeAction S ctx action s1))),
            snd (executePlan S after ctx (snd (executeAction S ctx action s1))))"
    by (rule executePlan_around [OF assms]) simp
  have unknown: "executeAction S ctx action s1 = ([unsupportedAction (pa_name action)], s1)"
    if "pa_name action \<notin> set ACTION_NAMES"
  proof -
    from that have "ACTION_MAP S (pa_name action) = None"
      by (simp add: ACTION_MAP_None)
    then show ?thesis by (simp add: executeAction_def)
  qed
  show ?thesis
    using general unknown executeAction_nonempty [of S ctx action s1]
      executePlan_length [of "before @ action # after" S ctx s]
    by (auto simp: unsupportedAction_def)
qed

text \<open>
  C3, as amended. For a \<open>complete_stage\<close> action whose implicit checklist update is executed
  and does not report success, the update raised (with an operator the handler returns
  nothing but success); the one entry the action adds is the error entry of the checklist
  step, named \<open>update_stage_checklist\<close>, with the message of what was raised; no entry named
  for \<open>complete_stage\<close> is added; the calls made are the reading of the order and the PATCH
  calls up to the one that raised, so the handler of \<open>complete_stage\<close> is not invoked.
\<close>

theorem failed_checklist_update_blocks_completion:
  assumes "pa_name action = ''complete_stage''"
    and "CompleteStageSchema (orEmptyObject (pa_arguments action)) = Inr args"
    and "executePlan S before ctx s = (log1, s1)"
    and "orderJson S (ctx_token ctx) (GetOrder (cs_orderId args)) (world s1) = (Inr order, w2)"
    and "find (\<lambda>status. ss_stage status = cs_stage args) (o_stages order) = Some stageStatus"
    and "pendingTasks stageStatus \<noteq> []"
    and "''OPERATOR'' \<in> ctx_roles ctx"
    and "tasks = map (\<lambda>task. \<lparr>taskId = item_id task, completed = True\<rparr>) (pendingTasks stageStatus)"
    and "update_stage_checklist_handler S
           \<lparr>uc_orderId = cs_orderId args, uc_stage = cs_stage args, uc_tasks = tasks\<rparr> ctx
           \<lparr>calls = calls s1 @ [Fetch (GetOrder (cs_orderId args))], world = w2\<rparr> = (outcome, s3)"
    and "\<forall>injected. outcome = Inr injected \<longrightarrow> r_status injected \<noteq> success"
  shows "\<exists>err. outcome = Inl err \<and>
           executeAction S ctx action s1 = ([checklistFailure err], s3) \<and>
           r_name (checklistFailure err) = ''update_stage_checklist'' \<and>
           r_status (checklistFailure err) = error \<and>
           (\<exists>k<length tasks.
              calls s3 = calls s1 @ Fetch (GetOrder (cs_orderId args)) #
                           patchCalls (cs_orderId args) (cs_stage args) (take (Suc k) tasks)) \<and>
           executePlan S (before @ action # after) ctx s =
             (log1 @ [checklistFailure err] @ fst (executePlan S after ctx s3),
              snd (executePlan S after ctx s3))"
proof (cases outcome)
  case (Inr injected)
  with update_handler_operator [OF assms(7,9)] assms(10) show ?thesis by simp
next
  case (Inl err)
  have a: "executeAction S ctx action s1 = ([checklistFailure err], s3)"
    using assms(7,8,9) Inl
    by (simp add: executeAction_complete_stage [OF assms(1,2)]
        ensureChecklist_pending [OF assms(4,5,6)] Let_def)
  from update_handler_operator [OF assms(7,9)] Inl executePlan_around [OF assms(3) a] a
  show ?thesis by (simp add: checklistFailure_def)
qed

lemmas demo_defs = demoServices_def demoStageJson_def demoUpdate_def demoOrders_def demoWorld_def
  demoOrder_def demoStage_def demoContext_def demoCompleteArgs_def demoState_def pendingTasks_def

lemma demo_update:
  "update_stage_checklist_handler (demoServices [])
     \<lparr>uc_orderId = 7, uc_stage = ASSEMBLY, uc_tasks = demoTasks\<rparr> demoOperator demoFetched =
   (Inr \<lparr>r_name = ''update_stage_checklist'', r_status = success,
         r_summary = ''Updated 2 checklist tasks for stage ASSEMBLY.'',
         r_data = Some (LastStatusData (Some (hd (o_stages (hd (demoWorld True True)))))),
         r_error = None\<rparr>,
    \<lparr>calls = [Fetch (GetOrder 7), Fetch (PatchChecklist 7 ASSEMBLY ''t1'' True),
              Fetch (PatchChecklist 7 ASSEMBLY ''t4'' True)],
     world = demoWorld True True\<rparr>)"
  by (simp add: update_stage_checklist_handler_def fetchWithAuthJson_def demo_defs demoOperator_def
      demoTasks_def demoFetched_def showNat.simps digitChar_def)

lemma update_stage_checklist_action:
  assumes "pa_name action = ''update_stage_checklist''"
    and "UpdateChecklistSchema (orEmptyObject (pa_arguments action)) = Inr args"
  shows "executeAction S ctx action s =
     (case update_stage_checklist_handler S args ctx s of
        (Inr result, s1) \<Rightarrow> ([result], s1)
      | (Inl err, s1) \<Rightarrow> ([failedAction ''update_stage_checklist'' err], s1))"
proof -
  from update_stage_checklist_entry [of S] obtain d where d:
    "ACTION_MAP S ''update_stage_checklist'' = Some d" "def_name d = ''update_stage_checklist''"
    "def_schema d = (\<lambda>j. map_sum id UpdateChecklistArgs (UpdateChecklistSchema j))"
    "def_handler d = (\<lambda>data. case data of UpdateChecklistArgs args \<Rightarrow> update_stage_checklist_handler S args
                                | _ \<Rightarrow> wrongArguments)"
    by blast
  show ?thesis
    by (simp add: executeAction_def assms d invokeHandler_def split: prod.splits sum.splits)
qed

lemma patchTasks_stops:
  assumes "patchTasks S ctx orderId stage done lastStatus s = (Inr l, s1)"
    and "stageJson S (ctx_token ctx) (PatchChecklist orderId stage (taskId task) (completed task))
           (world s1) = (Inl err, w2)"
  shows "patchTasks S ctx orderId stage (done @ task # rest) lastStatus s =
           (Inl err, \<lparr>calls = calls s @ patchCalls orderId stage (done @ [task]), world = w2\<rparr>)"
  using assms patchTasks_success_calls [OF assms(1)]
  by (simp add: patchTasks_append fetchWithAuthJson_def patchCalls_def)

text \<open>
  C10. The checklist handler makes one call per task, in list order, and stops at the first
  call that raises: when the calls for the tasks \<open>done\<close> succeed and the call for the next
  task raises, the handler raises with that message in the world the failed call left,
  which is the world after the changes of \<open>done\<close>; the calls made are those for \<open>done\<close> and
  the failed one, none for the tasks after it. The planned action is then reported as one
  error entry, and so is the injected update of a \<open>complete_stage\<close> action.
\<close>

theorem checklist_update_not_atomic:
  assumes "''OPERATOR'' \<in> ctx_roles ctx"
    and "uc_tasks args = done @ task # rest"
    and "patchTasks S ctx (uc_orderId args) (uc_stage args) done None s = (Inr l, s1)"
    and "stageJson S (ctx_token ctx)
           (PatchChecklist (uc_orderId args) (uc_stage args) (taskId task) (completed task))
           (world s1) = (Inl err, w2)"
    and "s2 = \<lparr>calls = calls s @ patchCalls (uc_orderId args) (uc_stage args) (done @ [task]),
               world = w2\<rparr>"
  shows "calls s1 = calls s @ patchCalls (uc_orderId args) (uc_stage args) done \<and>
         update_stage_checklist_handler S args ctx s = (Inl err, s2) \<and>
         (pa_name action = ''update_stage_checklist'' \<and>
          UpdateChecklistSchema (orEmptyObject (pa_arguments action)) = Inr args \<longrightarrow>
            executeAction S ctx action s =
              ([\<lparr>r_name = ''update_stage_checklist'', r_status = error,
                 r_summary = ''Failed to execute update_stage_checklist.'',
                 r_data = None, r_error = Some err\<rparr>], s2) \<and>
            length (fst (executeAction S ctx action s)) = 1 \<and>
            map statusName (map r_status (fst (executeAction S ctx action s))) = [''error'']) \<and>
         (pa_name gated = ''complete_stage'' \<and>
          CompleteStageSchema (orEmptyObject (pa_arguments gated)) = Inr cargs \<and>
          orderJson S (ctx_token ctx) (GetOrder (cs_orderId cargs)) (world s0) = (Inr order, world s) \<and>
          calls s = calls s0 @ [Fetch (GetOrder (cs_orderId cargs))] \<and>
          find (\<lambda>status. ss_stage status = cs_stage cargs) (o_stages order) = Some stageStatus \<and>
          args = \<lparr>uc_orderId = cs_orderId cargs, uc_stage = cs_stage cargs,
                  uc_tasks = map (\<lambda>task. \<lparr>taskId = item_id task, completed = True\<rparr>)
                               (pendingTasks stageStatus)\<rparr> \<longrightarrow>
            executeAction S ctx gated s0 =
              ([\<lparr>r_name = ''update_stage_checklist'', r_status = error,
                 r_summary = ''Failed to evaluate or update checklist tasks before completion.'',
                 r_data = None, r_error = Some err\<rparr>], s2))"
proof -
  have h: "update_stage_checklist_handler S args ctx s = (Inl err, s2)"
    using assms(1,2,5) patchTasks_stops [OF assms(3,4), of rest]
    by (simp add: update_stage_checklist_handler_def)
  have planned: "executeAction S ctx action s = ([failedAction ''update_stage_checklist'' err], s2)"
    if "pa_name action = ''update_stage_checklist''"
      "UpdateChecklistSchema (orEmptyObject (pa_arguments action)) = Inr args"
    using h by (simp add: update_stage_checklist_action [OF that])
  have injected: "executeAction S ctx gated s0 = ([checklistFailure err], s2)"
    if g: "pa_name gated = ''complete_stage''"
      "CompleteStageSchema (orEmptyObject (pa_arguments gated)) = Inr cargs"
      "orderJson S (ctx_token ctx) (GetOrder (cs_orderId cargs)) (world s0) = (Inr order, world s)"
      "calls s = calls s0 @ [Fetch (GetOrder (cs_orderId cargs))]"
      "find (\<lambda>status. ss_stage status = cs_stage cargs) (o_stages order) = Some stageStatus"
      "args = \<lparr>uc_orderId = cs_orderId cargs, uc_stage = cs_stage cargs,
                  uc_tasks = map (\<lambda>task. \<lparr>taskId = item_id task, completed = True\<rparr>)
                               (pendingTasks stageStatus)\<rparr>"
  proof -
    from g(6) assms(2) have p: "pendingTasks stageStatus \<noteq> []" by auto
    have s: "\<lparr>calls = calls s0 @ [Fetch (GetOrder (cs_orderId cargs))], world = world s\<rparr> = s"
      using g(4) by simp
    show ?thesis
      using assms(1) h g(6)
      by (simp add: executeAction_complete_stage [OF g(1,2)]
          ensureChecklist_pending [OF g(3,5) p] Let_def s)
  qed
  from h planned injected patchTasks_success_calls [OF assms(3)] show ?thesis
    by (simp add: failedAction_def checklistFailure_def)
qed

lemma demo_name: "pa_name demoCompleteAction = ''complete_stage''"
  by (simp add: demoCompleteAction_def)

lemma demo_before: "executePlan S [] ctx demoState = ([], demoState)"
  by (simp add: executePlan_def)

lemma demo_order_ctx:
  "orderJson (demoServices []) (ctx_token ctx) (GetOrder (cs_orderId demoCompleteArgs))
     (world demoState) = (Inr (hd demoOrders), demoOrders)"
  by (rule demo_order)

lemma demo_pending_nonempty: "pendingTasks (hd (o_stages (hd demoOrders))) \<noteq> []"
  by (simp add: demo_pending)

lemma demo_tasks:
  "demoTasks = map (\<lambda>task. \<lparr>taskId = item_id task, completed = True\<rparr>)
                 (pendingTasks (hd (o_stages (hd demoOrders))))"
  by (simp add: demo_pending demoTasks_def)

lemma demo_updated:
  "update_stage_checklist_handler (demoServices [])
     \<lparr>uc_orderId = cs_orderId demoCompleteArgs, uc_stage = cs_stage demoCompleteArgs,
      uc_tasks = demoTasks\<rparr> demoOperator
     \<lparr>calls = calls demoState @ [Fetch (GetOrder (cs_orderId demoCompleteArgs))], world = demoOrders\<rparr> =
   (Inr \<lparr>r_name = ''update_stage_checklist'', r_status = success,
         r_summary = ''Updated 2 checklist tasks for stage ASSEMBLY.'',
         r_data = Some (LastStatusData (Some (hd (o_stages (hd (demoWorld True True)))))), r_error = None\<rparr>,
    \<lparr>calls = [Fetch (GetOrder 7), Fetch (PatchChecklist 7 ASSEMBLY ''t1'' True),
              Fetch (PatchChecklist 7 ASSEMBLY ''t4'' True)],
     world = demoWorld True True\<rparr>)"
  using demo_update by (simp add: demoFetched_def demoCompleteArgs_def demoState_def)

lemma demo_completed:
  "\<exists>result w. complete_stage_handler (demoServices []) demoCompleteArgs demoOperator
     \<lparr>calls = [Fetch (GetOrder 7), Fetch (PatchChecklist 7 ASSEMBLY ''t1'' True),
              Fetch (PatchChecklist 7 ASSEMBLY ''t4'' True)],
      world = demoWorld True True\<rparr> =
     (Inr result,
      \<lparr>calls = [Fetch (GetOrder 7), Fetch (PatchChecklist 7 ASSEMBLY ''t1'' True),
              Fetch (PatchChecklist 7 ASSEMBLY ''t4'' True),
              Fetch (PostComplete 7 ASSEMBLY ''ana'' 30 None)], world = w\<rparr>) \<and>
     r_name result = ''complete_stage'' \<and> r_status result = success \<and>
     r_summary result = ''Stage ASSEMBLY completed (state COMPLETED).''"
  by (simp add: complete_stage_handler_def fetchWithAuthJson_def demo_defs demoOperator_def)

theorem complete_stage_injects_checklist_update_witness:
  "map r_name (fst (executePlan (demoServices []) ([] @ demoCompleteAction # []) demoOperator demoState))
     = [''update_stage_checklist'', ''complete_stage''] \<and>
   map r_status (fst (executePlan (demoServices []) ([] @ demoCompleteAction # []) demoOperator demoState))
     = [success, success] \<and>
   calls (snd (executePlan (demoServices []) ([] @ demoCompleteAction # []) demoOperator demoState))
     = [Fetch (GetOrder 7), Fetch (PatchChecklist 7 ASSEMBLY ''t1'' True),
        Fetch (PatchChecklist 7 ASSEMBLY ''t4'' True), Fetch (PostComplete 7 ASSEMBLY ''ana'' 30 None)]"
proof -
  from demo_completed obtain result w where c:
    "complete_stage_handler (demoServices []) demoCompleteArgs demoOperator
       \<lparr>calls = [Fetch (GetOrder 7), Fetch (PatchChecklist 7 ASSEMBLY ''t1'' True),
              Fetch (PatchChecklist 7 ASSEMBLY ''t4'' True)],
        world = demoWorld True True\<rparr> =
     (Inr result,
      \<lparr>calls = [Fetch (GetOrder 7), Fetch (PatchChecklist 7 ASSEMBLY ''t1'' True),
              Fetch (PatchChecklist 7 ASSEMBLY ''t4'' True),
              Fetch (PostComplete 7 ASSEMBLY ''ana'' 30 None)], world = w\<rparr>)"
    "r_name result = ''complete_stage''" "r_status result = success"
    by blast
  have role: "''OPERATOR'' \<in> ctx_roles demoOperator"
    by (simp add: demoOperator_def demoContext_def)
  from complete_stage_injects_checklist_update [OF demo_name demo_args demo_before demo_order_ctx
      demo_stage demo_pending_nonempty role demo_tasks demo_updated c(1), of "[]"] c(2,3)
  show ?thesis
    by (simp add: executePlan_def)
qed


lemma demo_flaky:
  "update_stage_checklist_handler (demoServices [])
     \<lparr>uc_orderId = cs_orderId demoCompleteArgs, uc_stage = cs_stage demoCompleteArgs,
      uc_tasks = demoTasks\<rparr> demoFlaky
     \<lparr>calls = calls demoState @ [Fetch (GetOrder (cs_orderId demoCompleteArgs))], world = demoOrders\<rparr> =
   (Inl ''Service unavailable'',
    \<lparr>calls = [Fetch (GetOrder 7), Fetch (PatchChecklist 7 ASSEMBLY ''t1'' True),
              Fetch (PatchChecklist 7 ASSEMBLY ''t4'' True)],
     world = demoWorld True False\<rparr>)"
  by (simp add: update_stage_checklist_handler_def fetchWithAuthJson_def demo_defs demoFlaky_def
      demoTasks_def)

text \<open>
  C1 as stated fails: the caller is an operator and the stage has two pending required
  tasks, \<open>t1\<close> and \<open>t4\<close>, but the service rejects the call on \<open>t4\<close>. The log of the plan
  is the error entry of the checklist step alone, with no completion attempt after it, and
  of the two tasks only \<open>t1\<close> has been marked.
\<close>

theorem complete_stage_injection_counterexample:
  "''OPERATOR'' \<in> ctx_roles demoFlaky \<and>
   map item_id (pendingTasks (hd (o_stages (hd demoOrders)))) = [''t1'', ''t4''] \<and>
   executePlan (demoServices []) [demoCompleteAction] demoFlaky demoState =
     ([checklistFailure ''Service unavailable''],
      \<lparr>calls = [Fetch (GetOrder 7), Fetch (PatchChecklist 7 ASSEMBLY ''t1'' True),
                Fetch (PatchChecklist 7 ASSEMBLY ''t4'' True)],
       world = demoWorld True False\<rparr>)"
proof -
  have role: "''OPERATOR'' \<in> ctx_roles demoFlaky"
    by (simp add: demoFlaky_def demoContext_def)
  have "executeAction (demoServices []) demoFlaky demoCompleteAction demoState =
      ([checklistFailure ''Service unavailable''],
       \<lparr>calls = [Fetch (GetOrder 7), Fetch (PatchChecklist 7 ASSEMBLY ''t1'' True),
                 Fetch (PatchChecklist 7 ASSEMBLY ''t4'' True)],
        world = demoWorld True False\<rparr>)"
    using demo_flaky role
    by (simp add: executeAction_complete_stage [OF demo_name demo_args]
        ensureChecklist_pending [OF demo_order_ctx demo_stage demo_pending_nonempty]
        demo_tasks [symmetric] Let_def)
  then have "executePlan (demoServices []) [demoCompleteAction] demoFlaky demoState =
     ([checklistFailure ''Service unavailable''],
      \<lparr>calls = [Fetch (GetOrder 7), Fetch (PatchChecklist 7 ASSEMBLY ''t1'' True),
                Fetch (PatchChecklist 7 ASSEMBLY ''t4'' True)],
       world = demoWorld True False\<rparr>)"
    by (simp add: executePlan_Cons executePlan_Nil)
  with role show ?thesis
    by (simp add: demo_pending)
qed

lemma demo_forbidden:
  "update_stage_checklist_handler (demoServices [])
     \<lparr>uc_orderId = cs_orderId demoCompleteArgs, uc_stage = cs_stage demoCompleteArgs,
      uc_tasks = demoTasks\<rparr> demoReadOnly
     \<lparr>calls = calls demoState @ [Fetch (GetOrder (cs_orderId demoCompleteArgs))], world = demoOrders\<rparr> =
   (Inl ''Forbidden'',
    \<lparr>calls = [Fetch (GetOrder 7), Fetch (PatchChecklist 7 ASSEMBLY ''t1'' True)],
     world = demoOrders\<rparr>)"
  by (simp add: update_stage_checklist_handler_def fetchWithAuthJson_def demoServices_def
      demoStageJson_def demoContext_def demoCompleteArgs_def demoState_def demoReadOnly_def
      demoTasks_def)

lemma demo_readonly_role: "''OPERATOR'' \<in> ctx_roles demoReadOnly"
  by (simp add: demoReadOnly_def demoContext_def)

theorem failed_checklist_update_blocks_completion_witness:
  "executePlan (demoServices []) ([] @ demoCompleteAction # []) demoReadOnly demoState =
     ([checklistFailure ''Forbidden''],
      \<lparr>calls = [Fetch (GetOrder 7), Fetch (PatchChecklist 7 ASSEMBLY ''t1'' True)],
       world = demoOrders\<rparr>)"
proof -
  have failed: "\<forall>injected. (Inl ''Forbidden'' :: string + agent_action_result) = Inr injected
      \<longrightarrow> r_status injected \<noteq> success"
    by simp
  from failed_checklist_update_blocks_completion [OF demo_name demo_args demo_before demo_order_ctx
      demo_stage demo_pending_nonempty demo_readonly_role demo_tasks demo_forbidden failed, of "[]"]
  show ?thesis
    by (auto simp: executePlan_def)
qed

text \<open>
  C3 as stated fails: with a token that may not write, the implicit update raises on its
  first call, and the log of the plan has one entry, named \<open>update_stage_checklist\<close>; none
  is named \<open>complete_stage\<close>.
\<close>

theorem failed_checklist_update_counterexample:
  "fst (update_stage_checklist_handler (demoServices [])
     \<lparr>uc_orderId = 7, uc_stage = ASSEMBLY, uc_tasks = demoTasks\<rparr> demoReadOnly demoFetched)
     = Inl ''Forbidden'' \<and>
   map r_name (fst (executePlan (demoServices []) [demoCompleteAction] demoReadOnly demoState))
     = [''update_stage_checklist'']"
proof -
  have "executeAction (demoServices []) demoReadOnly demoCompleteAction demoState =
      ([checklistFailure ''Forbidden''],
       \<lparr>calls = [Fetch (GetOrder 7), Fetch (PatchChecklist 7 ASSEMBLY ''t1'' True)],
        world = demoOrders\<rparr>)"
    using demo_forbidden demo_readonly_role
    by (simp add: executeAction_complete_stage [OF demo_name demo_args]
        ensureChecklist_pending [OF demo_order_ctx demo_stage demo_pending_nonempty]
        demo_tasks [symmetric] Let_def)
  then have "map r_name (fst (executePlan (demoServices []) [demoCompleteAction] demoReadOnly demoState))
     = [''update_stage_checklist'']"
    by (simp add: executePlan_Cons executePlan_Nil checklistFailure_def)
  moreover have "fst (update_stage_checklist_handler (demoServices [])
     \<lparr>uc_orderId = 7, uc_stage = ASSEMBLY, uc_tasks = demoTasks\<rparr> demoReadOnly demoFetched)
     = Inl ''Forbidden''"
    using demo_forbidden by (simp add: demoCompleteArgs_def demoState_def demoFetched_def)
  ultimately show ?thesis by simp
qed

lemma demo_blocked:
  "executePlan (demoServices []) [demoCompleteAction] demoSupervisor demoState =
   ([\<lparr>r_name = ''update_stage_checklist'', r_status = error,
      r_summary = ''Checklist tasks are pending, but the current user is not an operator and cannot update them automatically.'',
      r_data = None, r_error = None\<rparr>],
    \<lparr>calls = [Fetch (GetOrder 7)], world = demoOrders\<rparr>)"
proof -
  have role: "''OPERATOR'' \<notin> ctx_roles demoSupervisor"
    by (simp add: demoSupervisor_def demoContext_def)
  have "executeAction (demoServices []) demoSupervisor demoCompleteAction demoState =
   ([\<lparr>r_name = ''update_stage_checklist'', r_status = error,
      r_summary = ''Checklist tasks are pending, but the current user is not an operator and cannot update them automatically.'',
      r_data = None, r_error = None\<rparr>],
    \<lparr>calls = calls demoState @ [Fetch (GetOrder (cs_orderId demoCompleteArgs))], world = demoOrders\<rparr>)"
    using role
    by (simp add: executeAction_complete_stage [OF demo_name demo_args]
        ensureChecklist_pending [OF demo_order_ctx demo_stage demo_pending_nonempty] Let_def)
  then show ?thesis
    by (simp add: executePlan_Cons executePlan_Nil demoState_def demoCompleteArgs_def)
qed

theorem unknown_action_isolated_witness:
  "pa_name demoUnknownAction \<notin> set ACTION_NAMES \<and>
   map r_name (fst (executePlan (demoServices []) ([] @ demoUnknownAction # [demoCompleteAction])
      demoSupervisor demoState)) = [''delete_order'', ''update_stage_checklist''] \<and>
   snd (executePlan (demoServices []) ([] @ demoUnknownAction # [demoCompleteAction])
      demoSupervisor demoState) = \<lparr>calls = [Fetch (GetOrder 7)], world = demoOrders\<rparr>"
proof -
  have unknown: "pa_name demoUnknownAction \<notin> set ACTION_NAMES"
    by (simp add: demoUnknownAction_def ACTION_NAMES_def)
  from unknown_action_isolated [OF demo_before, of demoUnknownAction "demoServices []"
      demoSupervisor "[demoCompleteAction]"] unknown
  show ?thesis
    by (simp add: demo_blocked unsupportedAction_def demoUnknownAction_def)
qed

lemma demo_update_args:
  "UpdateChecklistSchema (orEmptyObject (pa_arguments demoUpdateAction)) = Inr demoUpdateArgs"
  by (simp add: demoUpdateAction_def demoUpdateArgs_def orEmptyObject_def UpdateChecklistSchema_def
      zObject_def zOrderId_def zInt_def failedChecks_def isInteger_def zPositive_def zStage_def
      zEnum_def STAGE_ORDER_def zArray_def ChecklistTaskSchema_def zString_def zBoolean_def
      minLen_def utf16Length_def issuesOf_def valuesOf_def List.map_filter_def upt_rec)

theorem checklist_update_not_atomic_witness:
  "world demoState = demoWorld False False \<and>
   executeAction (demoServices []) demoOperator demoUpdateAction demoState =
     ([\<lparr>r_name = ''update_stage_checklist'', r_status = error,
        r_summary = ''Failed to execute update_stage_checklist.'',
        r_data = None, r_error = Some ''Checklist task not found''\<rparr>],
      \<lparr>calls = [Fetch (PatchChecklist 7 ASSEMBLY ''t1'' True),
                Fetch (PatchChecklist 7 ASSEMBLY ''t9'' True)],
       world = demoWorld True False\<rparr>) \<and>
   map (\<lambda>task. (item_id task, item_completed task))
     (ss_checklist (hd (o_stages (hd (demoWorld False False))))) =
     [(''t1'', False), (''t2'', False), (''t3'', True), (''t4'', False)] \<and>
   map (\<lambda>task. (item_id task, item_completed task))
     (ss_checklist (hd (o_stages (hd (demoWorld True False))))) =
     [(''t1'', True), (''t2'', False), (''t3'', True), (''t4'', False)]"
proof -
  have role: "''OPERATOR'' \<in> ctx_roles demoOperator"
    by (simp add: demoOperator_def demoContext_def)
  have tasks: "uc_tasks demoUpdateArgs = [\<lparr>taskId = ''t1'', completed = True\<rparr>] @
      \<lparr>taskId = ''t9'', completed = True\<rparr> # [\<lparr>taskId = ''t4'', completed = True\<rparr>]"
    by (simp add: demoUpdateArgs_def)
  have first: "patchTasks (demoServices []) demoOperator (uc_orderId demoUpdateArgs)
      (uc_stage demoUpdateArgs) [\<lparr>taskId = ''t1'', completed = True\<rparr>] None demoState =
      (Inr (Some (hd (o_stages (hd (demoWorld True False))))),
       \<lparr>calls = [Fetch (PatchChecklist 7 ASSEMBLY ''t1'' True)], world = demoWorld True False\<rparr>)"
    by (simp add: fetchWithAuthJson_def demo_defs demoOperator_def demoUpdateArgs_def)
  have second: "stageJson (demoServices []) (ctx_token demoOperator)
      (PatchChecklist (uc_orderId demoUpdateArgs) (uc_stage demoUpdateArgs)
         (taskId \<lparr>taskId = ''t9'', completed = True\<rparr>) (completed \<lparr>taskId = ''t9'', completed = True\<rparr>))
      (world \<lparr>calls = [Fetch (PatchChecklist 7 ASSEMBLY ''t1'' True)], world = demoWorld True False\<rparr>)
      = (Inl ''Checklist task not found'', demoWorld True False)"
    by (simp add: demo_defs demoOperator_def demoUpdateArgs_def)
  have name: "pa_name demoUpdateAction = ''update_stage_checklist''"
    by (simp add: demoUpdateAction_def)
  from checklist_update_not_atomic [OF role tasks first second refl, of demoUpdateAction]
    name demo_update_args
  show ?thesis
    by (simp add: patchCalls_def demoUpdateArgs_def demoState_def demoOrders_def
        demoWorld_def demoOrder_def demoStage_def)
qed

subsection \<open>Plan extraction\<close>








subsection \<open>Requests without authorised actions\<close>

lemma allowedActionsFor_empty:
  "allowedActionsFor S R = [] \<longleftrightarrow> ''OPERATOR'' \<notin> R \<and> ''SUPERVISOR'' \<notin> R"
  by (auto simp: allowedActionsFor_def ACTION_LIST_def ACTION_DEFINITIONS_def)

lemma buildWorkflowContext_calls:
  "buildWorkflowContext S token s = (r, s1) \<Longrightarrow> calls s1 = calls s @ [Fetch GetOrders]"
  by (auto simp: buildWorkflowContext_def fetchOrders_def fetchWithAuthJson_def
      split: prod.splits sum.splits)

lemma fetchUserProfile_calls:
  "fetchUserProfile S token s = (r, s1) \<Longrightarrow> calls s1 = calls s @ [Fetch GetMe]"
  by (auto simp: fetchUserProfile_def fetchWithAuthJson_def split: prod.splits)

text \<open>
  C7. For a request with a question and a token whose caller's normalised roles authorise
  no action of the catalogue (the filtered list is empty, which is the case exactly when
  the set holds neither OPERATOR nor SUPERVISOR: \<open>allowedActionsFor_empty\<close>), no plan is
  generated and the log is empty; the model is invoked once, with the answer prompt built
  from the context digest, the words for no plan and for an empty log, and the question;
  the calls of the request are the reading of the orders, the reading of the profile and
  that one invocation, and the response is the model's answer.
\<close>

theorem no_authorized_actions_no_plan:
  assumes "OLLAMA_BASE_URL S \<noteq> []"
    and "req_question payload = Some q" and "trim q \<noteq> []"
    and "req_token payload = Some token" and "token \<noteq> []"
    and "buildWorkflowContext S token s = ((contextSummary, contextError), s1)"
    and "fetchUserProfile S token s1 = (Inr userProfile, s2)"
    and "allowedActionsFor S (normalizeRoles (p_roles userProfile)) = []"
    and "messages = answerMessages S (take 4000 (trim q)) contextSummary None []"
    and "modelInvoke S messages (world s2) = (reply, w3)"
  shows "planAndExecute S token (take 4000 (trim q)) contextSummary userProfile s2
           = (Inr (None, []), s2) \<and>
         messages =
           [(''system'',
             ''You are ProduSoft's workflow assistant. You MUST reflect the real execution results that were already performed. If something failed, explain why and recommend next steps. Never invent actions outside the execution log.''),
            (''system'', ''Operational context:'' @ [CHR 0x0A] @ contextSummary),
            (''system'', ''Agent plan:'' @ [CHR 0x0A] @ ''No plan generated (information-only response).''),
            (''system'', ''Execution log:'' @ [CHR 0x0A] @ ''No autonomous actions were executed.''),
            (''human'', take 4000 (trim q))] \<and>
         POST S (Some payload) s =
           ((case reply of
               Inl err \<Rightarrow> Failure 502 err
             | Inr response \<Rightarrow>
                 Answer (normalizeContent (resp_content response))
                   (case resp_model response of Some m \<Rightarrow> m | None \<Rightarrow> OLLAMA_MODEL S)
                   contextError),
            \<lparr>calls = calls s @ [Fetch GetOrders, Fetch GetMe, Invoke messages], world = w3\<rparr>)"
proof -
  have plan: "planAndExecute S token (take 4000 (trim q)) contextSummary userProfile s2
           = (Inr (None, []), s2)"
    using assms(8) by (simp add: planAndExecute_def Let_def)
  have msgs: "messages =
           [(''system'',
             ''You are ProduSoft's workflow assistant. You MUST reflect the real execution results that were already performed. If something failed, explain why and recommend next steps. Never invent actions outside the execution log.''),
            (''system'', ''Operational context:'' @ [CHR 0x0A] @ contextSummary),
            (''system'', ''Agent plan:'' @ [CHR 0x0A] @ ''No plan generated (information-only response).''),
            (''system'', ''Execution log:'' @ [CHR 0x0A] @ ''No autonomous actions were executed.''),
            (''human'', take 4000 (trim q))]"
    unfolding assms(9) by (simp add: answerMessages_def)
  have c: "calls s2 = calls s @ [Fetch GetOrders, Fetch GetMe]"
    using buildWorkflowContext_calls [OF assms(6)] fetchUserProfile_calls [OF assms(7)] by simp
  have final: "buildFinalAnswer S (take 4000 (trim q)) contextSummary None [] s2 =
      ((case reply of
          Inl err \<Rightarrow> Inl err
        | Inr response \<Rightarrow>
            Inr (normalizeContent (resp_content response),
                 (case resp_model response of Some m \<Rightarrow> m | None \<Rightarrow> OLLAMA_MODEL S))),
       \<lparr>calls = calls s @ [Fetch GetOrders, Fetch GetMe, Invoke messages], world = w3\<rparr>)"
    using assms(10) c
    by (simp add: buildFinalAnswer_def invokeModel_def assms(9) [symmetric] split: sum.splits)
  have run: "runAgent S token (trim q) s =
      ((case reply of
          Inl err \<Rightarrow> Inl err
        | Inr response \<Rightarrow>
            Inr (normalizeContent (resp_content response),
                 (case resp_model response of Some m \<Rightarrow> m | None \<Rightarrow> OLLAMA_MODEL S),
                 contextError)),
       \<lparr>calls = calls s @ [Fetch GetOrders, Fetch GetMe, Invoke messages], world = w3\<rparr>)"
    by (simp add: runAgent_def Let_def assms(6,7) plan final split: sum.splits)
  have post: "POST S (Some payload) s =
           ((case reply of
               Inl err \<Rightarrow> Failure 502 err
             | Inr response \<Rightarrow>
                 Answer (normalizeContent (resp_content response))
                   (case resp_model response of Some m \<Rightarrow> m | None \<Rightarrow> OLLAMA_MODEL S)
                   contextError),
            \<lparr>calls = calls s @ [Fetch GetOrders, Fetch GetMe, Invoke messages], world = w3\<rparr>)"
    using assms(1,2,3,4,5)
    by (simp add: POST_def Let_def run split: sum.splits)
  from plan msgs post show ?thesis by simp
qed


theorem no_authorized_actions_no_plan_witness:
  "normalizeRoles (p_roles (demoProfile ''auditor'')) = {} \<and>
   POST (demoServices []) (Some demoRequest) demoState =
     (Answer ''Done.'' ''gpt-oss:20b-cloud'' None,
      \<lparr>calls = [Fetch GetOrders, Fetch GetMe, Invoke demoAnswerMessages], world = demoOrders\<rparr>)"
proof -
  have url: "OLLAMA_BASE_URL (demoServices []) \<noteq> []"
    by (simp add: demoServices_def)
  have q: "req_question demoRequest = Some ''  status? ''" "req_token demoRequest = Some ''auditor''"
    by (simp_all add: demoRequest_def)
  have tq: "trim ''  status? '' \<noteq> []" "''auditor'' \<noteq> []"
    by (simp_all add: trim_def isWhiteSpace_def)
  have ctx: "buildWorkflowContext (demoServices []) ''auditor'' demoState =
      ((contextSummaryOf (dateGetTime (demoServices [])) demoOrders, None),
       \<lparr>calls = [Fetch GetOrders], world = demoOrders\<rparr>)"
    by (simp add: buildWorkflowContext_def fetchOrders_def fetchWithAuthJson_def demoServices_def
        demoState_def)
  have me: "fetchUserProfile (demoServices []) ''auditor''
      \<lparr>calls = [Fetch GetOrders], world = demoOrders\<rparr> =
      (Inr (demoProfile ''auditor''), \<lparr>calls = [Fetch GetOrders, Fetch GetMe], world = demoOrders\<rparr>)"
    by (simp add: fetchUserProfile_def fetchWithAuthJson_def demoServices_def)
  have roles: "normalizeRoles (p_roles (demoProfile ''auditor'')) = {}"
    by (simp add: normalizeRoles_def demoProfile_def isRole_def stripRolePrefix_def toUpperCase_def
        toUpperChar_def)
  have none: "allowedActionsFor (demoServices []) (normalizeRoles (p_roles (demoProfile ''auditor''))) = []"
    by (simp add: allowedActionsFor_empty roles)
  have reply: "modelInvoke (demoServices []) demoAnswerMessages
      (world \<lparr>calls = [Fetch GetOrders, Fetch GetMe], world = demoOrders\<rparr>) =
      (Inr \<lparr>resp_content = ContentString ''Done.'', resp_model = None\<rparr>, demoOrders)"
    by (simp add: demoServices_def demoAnswerMessages_def answerMessages_def)
  from no_authorized_actions_no_plan [OF url q(1) tq(1) q(2) tq(2) ctx me none
      demoAnswerMessages_def reply] roles
  show ?thesis
    by (simp add: demoState_def demoServices_def)
qed

subsection \<open>The context digest is a function of the orders\<close>

lemma mset_insertSorted: "mset (insertSorted cmp x xs) = add_mset x (mset xs)"
  by (induction xs) auto

lemma mset_sortArray: "mset (sortArray cmp xs) = mset xs"
  unfolding sortArray_def by (induction xs) (auto simp: mset_insertSorted)

lemma set_insertSorted: "set (insertSorted cmp x xs) = insert x (set xs)"
  by (induction xs) auto

lemma set_sortArray: "set (sortArray cmp xs) = set xs"
  using mset_sortArray [of cmp xs] by (metis set_mset_mset)

text \<open>On a set of elements where the comparator is a consistent ordering the result is
  sorted.\<close>

lemma sorted_insertSorted:
  assumes total: "\<And>a b. a \<in> A \<Longrightarrow> b \<in> A \<Longrightarrow> sortCompare cmp a b \<le> 0 \<or> sortCompare cmp b a \<le> 0"
    and trans: "\<And>a b c. a \<in> A \<Longrightarrow> b \<in> A \<Longrightarrow> c \<in> A \<Longrightarrow>
                  sortCompare cmp a b \<le> 0 \<Longrightarrow> sortCompare cmp b c \<le> 0 \<Longrightarrow> sortCompare cmp a c \<le> 0"
    and x: "x \<in> A"
  shows "set xs \<subseteq> A \<Longrightarrow> sorted_wrt (\<lambda>a b. sortCompare cmp a b \<le> 0) xs \<Longrightarrow>
         sorted_wrt (\<lambda>a b. sortCompare cmp a b \<le> 0) (insertSorted cmp x xs)"
proof (induction xs)
  case Nil
  then show ?case by simp
next
  case (Cons y ys)
  from Cons.prems have y: "y \<in> A" and ys: "set ys \<subseteq> A" by auto
  show ?case
  proof (cases "sortCompare cmp x y \<le> 0")
    case True
    have "sortCompare cmp x z \<le> 0" if "z \<in> set ys" for z
    proof -
      from that Cons.prems have "sortCompare cmp y z \<le> 0" by auto
      with True show ?thesis using trans [OF x y] that ys by blast
    qed
    with True Cons.prems show ?thesis by simp
  next
    case False
    then have "sortCompare cmp y x \<le> 0" using total [OF x y] by simp
    with False Cons.prems Cons.IH [OF ys] show ?thesis
      by (auto simp: set_insertSorted)
  qed
qed

lemma sorted_sortArray:
  assumes "\<And>a b. a \<in> A \<Longrightarrow> b \<in> A \<Longrightarrow> sortCompare cmp a b \<le> 0 \<or> sortCompare cmp b a \<le> 0"
    and "\<And>a b c. a \<in> A \<Longrightarrow> b \<in> A \<Longrightarrow> c \<in> A \<Longrightarrow>
                  sortCompare cmp a b \<le> 0 \<Longrightarrow> sortCompare cmp b c \<le> 0 \<Longrightarrow> sortCompare cmp a c \<le> 0"
  shows "set xs \<subseteq> A \<Longrightarrow> sorted_wrt (\<lambda>a b. sortCompare cmp a b \<le> 0) (sortArray cmp xs)"
proof (induction xs)
  case Nil
  then show ?case by (simp add: sortArray_def)
next
  case (Cons x xs)
  then have x: "x \<in> A" and xs: "set (sortArray cmp xs) \<subseteq> A"
    by (auto simp: set_sortArray)
  have "sortArray cmp (x # xs) = insertSorted cmp x (sortArray cmp xs)"
    by (simp add: sortArray_def)
  with Cons sorted_insertSorted [of A cmp x "sortArray cmp xs", OF assms x xs]
  show ?case by simp
qed

text \<open>Stability: the elements with one key come out in the order they came in.\<close>

lemma filter_insertSorted:
  assumes key: "\<And>a b. a \<in> A \<Longrightarrow> b \<in> A \<Longrightarrow> key a = key b \<Longrightarrow> sortCompare cmp a b \<le> 0"
    and x: "x \<in> A"
  shows "set xs \<subseteq> A \<Longrightarrow> filter (\<lambda>a. key a = k) (insertSorted cmp x xs) =
         (if key x = k then x # filter (\<lambda>a. key a = k) xs else filter (\<lambda>a. key a = k) xs)"
proof (induction xs)
  case Nil
  then show ?case by simp
next
  case (Cons y ys)
  from Cons.prems have y: "y \<in> A" and ys: "set ys \<subseteq> A" by auto
  show ?case
  proof (cases "sortCompare cmp x y \<le> 0")
    case True
    then show ?thesis by simp
  next
    case False
    then have "key x \<noteq> key y" using key [OF x y] by auto
    with False Cons.IH [OF ys] show ?thesis by auto
  qed
qed

lemma filter_sortArray:
  assumes "\<And>a b. a \<in> A \<Longrightarrow> b \<in> A \<Longrightarrow> key a = key b \<Longrightarrow> sortCompare cmp a b \<le> 0"
  shows "set xs \<subseteq> A \<Longrightarrow>
         filter (\<lambda>a. key a = k) (sortArray cmp xs) = filter (\<lambda>a. key a = k) xs"
proof (induction xs)
  case Nil
  then show ?case by (simp add: sortArray_def)
next
  case (Cons x xs)
  then have x: "x \<in> A" and xs: "set (sortArray cmp xs) \<subseteq> A"
    by (auto simp: set_sortArray)
  from Cons have ih: "filter (\<lambda>a. key a = k) (sortArray cmp xs) = filter (\<lambda>a. key a = k) xs"
    by simp
  have step: "sortArray cmp (x # xs) = insertSorted cmp x (sortArray cmp xs)"
    by (simp add: sortArray_def)
  have "filter (\<lambda>a. key a = k) (sortArray cmp (x # xs)) =
      filter (\<lambda>a. key a = k) (insertSorted cmp x (sortArray cmp xs))"
    by (simp only: step)
  also have "\<dots> = (if key x = k then x # filter (\<lambda>a. key a = k) (sortArray cmp xs)
                   else filter (\<lambda>a. key a = k) (sortArray cmp xs))"
    by (rule filter_insertSorted [of A key cmp x "sortArray cmp xs" k, OF assms x xs])
  also have "\<dots> = (if key x = k then x # filter (\<lambda>a. key a = k) xs
                   else filter (\<lambda>a. key a = k) xs)"
    by (simp only: ih)
  also have "\<dots> = filter (\<lambda>a. key a = k) (x # xs)"
    by simp
  finally show ?case .
qed

lemma compareOrders_le:
  assumes "orderDate g a = Some da" and "orderDate g b = Some db"
  shows "sortCompare (compareOrders g) a b \<le> 0 \<longleftrightarrow>
     orderPriority b < orderPriority a \<or> (orderPriority a = orderPriority b \<and> db \<le> da)"
  using assms by (auto simp: sortCompare_def compareOrders_def minusNumber_def Let_def)

lemma rankStage_values:
  "rankStage PREPARATION = 0" "rankStage ASSEMBLY = 1" "rankStage DELIVERY = 2"
  by (simp_all add: rankStage_def STAGE_RANK_def STAGE_ORDER_def upt_rec)

lemma formatStage_nonempty: "formatStage stage \<noteq> []"
proof -
  have "join sep (x # xs) \<noteq> []" if "x \<noteq> []" for sep and x :: string and xs
    using that by (cases xs) auto
  then show ?thesis
    by (simp add: formatStage_def Let_def List.map_filter_def toLowerCase_def)
qed

lemma join_nonempty:
  assumes "xs \<noteq> []" and "hd xs \<noteq> []"
  shows "join sep xs \<noteq> []"
proof (cases xs)
  case Nil
  with assms show ?thesis by simp
next
  case (Cons x ys)
  with assms show ?thesis by (cases ys) auto
qed

lemma rankStage_inj: "rankStage a = rankStage b \<Longrightarrow> a = b"
  by (cases a; cases b) (simp_all add: rankStage_values)

lemma formatOrder_stages:
  "\<exists>header. formatOrder order =
     header @ ''. Stage details: '' @
     (if o_stages order = [] then ''no recorded stages.''
      else join ''; '' (map formatStage (sortedStages order)))"
proof (cases "o_stages order = []")
  case True
  then show ?thesis
    by (simp add: formatOrder_def Let_def sortedStages_def sortArray_def)
next
  case False
  then have "mset (sortedStages order) \<noteq> {#}"
    by (simp add: sortedStages_def mset_sortArray)
  then have "sortedStages order \<noteq> []" by auto
  then have "join ''; '' (map formatStage (sortedStages order)) \<noteq> []"
    by (intro join_nonempty) (simp_all add: hd_map formatStage_nonempty)
  with False show ?thesis
    by (simp add: formatOrder_def Let_def)
qed

text \<open>
  Two runs of the context builder on worlds where the service lists the same orders give
  the same digest, the digest of that list, which shows the first ten of the sorted
  orders. The stage lines of an order are those of its stages sorted by rank, PREPARATION
  before ASSEMBLY before DELIVERY, whatever the order they were listed in, stages of one
  type keeping their order.
\<close>

lemma context_digest_deterministic:
  "(orderListJson S token GetOrders w1 = (Inr orders, w1') \<and>
    orderListJson S token GetOrders w2 = (Inr orders, w2') \<longrightarrow>
      fst (buildWorkflowContext S token \<lparr>calls = c1, world = w1\<rparr>) =
        (contextSummaryOf (dateGetTime S) orders, None) \<and>
      fst (buildWorkflowContext S token \<lparr>calls = c2, world = w2\<rparr>) =
        fst (buildWorkflowContext S token \<lparr>calls = c1, world = w1\<rparr>)) \<and>
   (orders \<noteq> [] \<longrightarrow>
      contextSummaryOf g orders =
        ''Total orders available: '' @ showNat (length orders) @ ''. Showing top '' @
        showNat (length (limitedOrders g orders)) @ '' by priority and creation.'' @
        [CHR 0x0A] @ join [CHR 0x0A] (map formatOrder (limitedOrders g orders))) \<and>
   limitedOrders g orders = take 10 (sortArray (compareOrders g) orders) \<and>
   length (limitedOrders g orders) = min 10 (length orders) \<and>
   mset (sortArray (compareOrders g) orders) = mset orders \<and>
   (\<exists>header. formatOrder order =
      header @ ''. Stage details: '' @
      (if o_stages order = [] then ''no recorded stages.''
       else join ''; '' (map formatStage (sortedStages order)))) \<and>
   mset (sortedStages order) = mset (o_stages order) \<and>
   sorted_wrt (\<lambda>a b. rankStage (ss_stage a) \<le> rankStage (ss_stage b)) (sortedStages order) \<and>
   rankStage PREPARATION < rankStage ASSEMBLY \<and> rankStage ASSEMBLY < rankStage DELIVERY \<and>
   filter (\<lambda>a. ss_stage a = stage) (sortedStages order) =
     filter (\<lambda>a. ss_stage a = stage) (o_stages order)"
proof -
  have ctx: "fst (buildWorkflowContext S token \<lparr>calls = c, world = w\<rparr>) =
        (contextSummaryOf (dateGetTime S) orders, None)"
    if "orderListJson S token GetOrders w = (Inr orders, w')" for c w w'
    using that by (simp add: buildWorkflowContext_def fetchOrders_def fetchWithAuthJson_def)
  have summary: "contextSummaryOf g orders =
        ''Total orders available: '' @ showNat (length orders) @ ''. Showing top '' @
        showNat (length (limitedOrders g orders)) @ '' by priority and creation.'' @
        [CHR 0x0A] @ join [CHR 0x0A] (map formatOrder (limitedOrders g orders))"
    if "orders \<noteq> []"
    using that by (simp add: contextSummaryOf_def Let_def)
  have limited: "limitedOrders g orders = take 10 (sortArray (compareOrders g) orders)"
    by (simp add: limitedOrders_def MAX_CONTEXT_ORDERS_def)
  have len: "length (sortArray (compareOrders g) orders) = length orders"
    using mset_sortArray [of "compareOrders g" orders] by (metis size_mset)
  have ssorted: "sorted_wrt
      (\<lambda>a b. sortCompare (\<lambda>a b. Some (rankStage (ss_stage a) - rankStage (ss_stage b))) a b \<le> 0)
      (sortedStages order)"
    unfolding sortedStages_def
    by (rule sorted_sortArray [where A = UNIV]) (auto simp: sortCompare_def)
  have sstable: "filter (\<lambda>a. ss_stage a = stage) (sortedStages order) =
     filter (\<lambda>a. ss_stage a = stage) (o_stages order)"
    unfolding sortedStages_def
    by (rule filter_sortArray [where A = UNIV]) (auto simp: sortCompare_def)
  show ?thesis
    using ctx summary limited len ssorted sstable formatOrder_stages [of order]
    by (simp add: mset_sortArray sortedStages_def rankStage_values sortCompare_def
        del: sorted_wrt.simps)
qed

text \<open>
  When the creation text of every listed order is a date (or missing, which counts as
  time 0), the sorted orders are a permutation of the list in which every order comes
  before the orders of lower priority and, among those of its priority, before the ones
  created earlier (a missing priority counting as 0), orders equal in both keeping their
  order.
\<close>

lemma orders_sorted_when_dates_parse:
  assumes dates: "\<And>a. a \<in> set orders \<Longrightarrow> o_createdAt a \<noteq> [] \<Longrightarrow> g (o_createdAt a) \<noteq> None"
    and priority: "priority = (\<lambda>a. case o_priority a of Some p \<Rightarrow> p | None \<Rightarrow> 0)"
    and created: "created = (\<lambda>a. if o_createdAt a \<noteq> [] then the (g (o_createdAt a)) else 0)"
  shows "mset (sortArray (compareOrders g) orders) = mset orders \<and>
         sorted_wrt (\<lambda>a b. priority b < priority a \<or>
                            (priority a = priority b \<and> created b \<le> created a))
           (sortArray (compareOrders g) orders) \<and>
         filter (\<lambda>a. (priority a, created a) = k) (sortArray (compareOrders g) orders) =
           filter (\<lambda>a. (priority a, created a) = k) orders"
proof -
  have d: "orderDate g a = Some (created a)" if "a \<in> set orders" for a
    using dates [OF that] by (auto simp: orderDate_def created)
  have p: "orderPriority a = priority a" for a
    by (simp add: orderPriority_def priority)
  have le: "sortCompare (compareOrders g) a b \<le> 0 \<longleftrightarrow>
      priority b < priority a \<or> (priority a = priority b \<and> created b \<le> created a)"
    if "a \<in> set orders" "b \<in> set orders" for a b
    using compareOrders_le [OF d [OF that(1)] d [OF that(2)]] by (simp add: p)
  have "sorted_wrt (\<lambda>a b. sortCompare (compareOrders g) a b \<le> 0)
      (sortArray (compareOrders g) orders)"
    by (rule sorted_sortArray [where A = "set orders"]) (auto simp: le)
  then have sorted: "sorted_wrt (\<lambda>a b. priority b < priority a \<or>
                            (priority a = priority b \<and> created b \<le> created a))
           (sortArray (compareOrders g) orders)"
    by (rule sorted_wrt_mono_rel [rotated]) (simp add: le set_sortArray)
  have stable: "filter (\<lambda>a. (priority a, created a) = k) (sortArray (compareOrders g) orders) =
           filter (\<lambda>a. (priority a, created a) = k) orders"
    by (rule filter_sortArray [where A = "set orders"]) (auto simp: le)
  from sorted stable show ?thesis by (simp add: mset_sortArray)
qed

lemma demo_digest:
  "contextSummaryOf (dateGetTime (demoServices [])) demoOrders =
     ''Total orders available: 3. Showing top 3 by priority and creation.\<newline>Order PO-9 (id=9) priority 5 - current stage assembly / overall in_progress. Stage details: delivery: pending\<newline>Order PO-7 (id=7) priority 2 - current stage assembly / overall in_progress. Stage details: preparation: completed; assembly: in_progress\<newline>Order PO-4 (id=4) priority n/a - current stage assembly / overall in_progress. Stage details: no recorded stages.''"
  by (simp add: contextSummaryOf_def limitedOrders_def MAX_CONTEXT_ORDERS_def sortArray_def
      sortCompare_def minusNumber_def demoGetTime_def
      compareOrders_def orderPriority_def orderDate_def demoServices_def demoOrders_def
      demoWorld_def demoOrder_def demoStage_def formatOrder_def formatStage_def sortedStages_def
      rankStage_values priorityText_def showInt_def showNat.simps digitChar_def toLowerCase_def
      toLowerChar_def List.map_filter_def Let_def)

text \<open>
  C8. The orders of the digest are not always sorted by priority and then by recency.
  In the queue PO-1 to PO-5 the orders PO-1, PO-2 and PO-3 have priority 1 and PO-4 and
  PO-5 priority 3; PO-1 and PO-4 were created on 5 January 2024, PO-3 and PO-5 on
  5 February 2024, and the creation text of PO-2 is no date. The comparator puts PO-3
  before PO-1 (its answer on PO-1 and PO-3 is positive), but against PO-2 it answers NaN
  for both, which the sort reads as 0. The digest lists PO-5, PO-4, PO-1, PO-2, PO-3: the
  priorities are in order and PO-5 is before PO-4, but PO-1 is listed before the more
  recent PO-3.
\<close>

theorem context_digest_unsorted_on_unparsable_date:
  "map (\<lambda>a. (o_orderNumber a, o_priority a, o_createdAt a,
             dateGetTime (demoServices []) (o_createdAt a))) demoQueue =
     [(''PO-1'', Some 1, ''2024-01-05'', Some 1704412800000),
      (''PO-2'', Some 1, ''pending'', None),
      (''PO-3'', Some 1, ''2024-02-05'', Some 1707091200000),
      (''PO-4'', Some 3, ''2024-01-05'', Some 1704412800000),
      (''PO-5'', Some 3, ''2024-02-05'', Some 1707091200000)] \<and>
   compareOrders (dateGetTime (demoServices [])) (demoQueue ! 0) (demoQueue ! 2) =
     Some 2678400000 \<and>
   compareOrders (dateGetTime (demoServices [])) (demoQueue ! 0) (demoQueue ! 1) = None \<and>
   compareOrders (dateGetTime (demoServices [])) (demoQueue ! 1) (demoQueue ! 2) = None \<and>
   compareOrders (dateGetTime (demoServices [])) (demoQueue ! 3) (demoQueue ! 4) =
     Some 2678400000 \<and>
   compareOrders (dateGetTime (demoServices [])) (demoQueue ! 2) (demoQueue ! 3) = Some 2 \<and>
   map o_orderNumber (limitedOrders (dateGetTime (demoServices [])) demoQueue) =
     [''PO-5'', ''PO-4'', ''PO-1'', ''PO-2'', ''PO-3''] \<and>
   fst (buildWorkflowContext (demoServices []) ''operator'' \<lparr>calls = [], world = demoQueue\<rparr>) =
     (''Total orders available: 5. Showing top 5 by priority and creation.\<newline>Order PO-5 (id=5) priority 3 - current stage assembly / overall in_progress. Stage details: no recorded stages.\<newline>Order PO-4 (id=4) priority 3 - current stage assembly / overall in_progress. Stage details: no recorded stages.\<newline>Order PO-1 (id=1) priority 1 - current stage assembly / overall in_progress. Stage details: no recorded stages.\<newline>Order PO-2 (id=2) priority 1 - current stage assembly / overall in_progress. Stage details: no recorded stages.\<newline>Order PO-3 (id=3) priority 1 - current stage assembly / overall in_progress. Stage details: no recorded stages.'',
      None)"
proof -
  have queue: "map (\<lambda>a. (o_orderNumber a, o_priority a, o_createdAt a,
             dateGetTime (demoServices []) (o_createdAt a))) demoQueue =
     [(''PO-1'', Some 1, ''2024-01-05'', Some 1704412800000),
      (''PO-2'', Some 1, ''pending'', None),
      (''PO-3'', Some 1, ''2024-02-05'', Some 1707091200000),
      (''PO-4'', Some 3, ''2024-01-05'', Some 1704412800000),
      (''PO-5'', Some 3, ''2024-02-05'', Some 1707091200000)]"
    by (simp add: demoQueue_def demoOrder_def demoServices_def demoGetTime_def)
  have cmp: "compareOrders (dateGetTime (demoServices [])) (demoQueue ! 0) (demoQueue ! 2) =
     Some 2678400000"
    "compareOrders (dateGetTime (demoServices [])) (demoQueue ! 0) (demoQueue ! 1) = None"
    "compareOrders (dateGetTime (demoServices [])) (demoQueue ! 1) (demoQueue ! 2) = None"
    "compareOrders (dateGetTime (demoServices [])) (demoQueue ! 3) (demoQueue ! 4) =
     Some 2678400000"
    "compareOrders (dateGetTime (demoServices [])) (demoQueue ! 2) (demoQueue ! 3) = Some 2"
    by (simp_all add: compareOrders_def orderPriority_def orderDate_def minusNumber_def Let_def
        demoQueue_def demoOrder_def demoServices_def demoGetTime_def)
  have limited: "limitedOrders (dateGetTime (demoServices [])) demoQueue =
      [demoQueue ! 4, demoQueue ! 3, demoQueue ! 0, demoQueue ! 1, demoQueue ! 2]"
    by (simp add: limitedOrders_def MAX_CONTEXT_ORDERS_def sortArray_def
      sortCompare_def minusNumber_def demoGetTime_def compareOrders_def orderPriority_def
      orderDate_def demoServices_def demoQueue_def demoOrder_def Let_def)
  have names: "map o_orderNumber (limitedOrders (dateGetTime (demoServices [])) demoQueue) =
     [''PO-5'', ''PO-4'', ''PO-1'', ''PO-2'', ''PO-3'']"
    unfolding limited by (simp add: demoQueue_def demoOrder_def)
  have digest: "contextSummaryOf (dateGetTime (demoServices [])) demoQueue =
     ''Total orders available: 5. Showing top 5 by priority and creation.\<newline>Order PO-5 (id=5) priority 3 - current stage assembly / overall in_progress. Stage details: no recorded stages.\<newline>Order PO-4 (id=4) priority 3 - current stage assembly / overall in_progress. Stage details: no recorded stages.\<newline>Order PO-1 (id=1) priority 1 - current stage assembly / overall in_progress. Stage details: no recorded stages.\<newline>Order PO-2 (id=2) priority 1 - current stage assembly / overall in_progress. Stage details: no recorded stages.\<newline>Order PO-3 (id=3) priority 1 - current stage assembly / overall in_progress. Stage details: no recorded stages.''"
    unfolding contextSummaryOf_def Let_def limited
    by (simp add: demoQueue_def demoOrder_def formatOrder_def sortedStages_def sortArray_def
        priorityText_def showInt_def showNat.simps digitChar_def toLowerCase_def
        toLowerChar_def Let_def)
  have run: "fst (buildWorkflowContext (demoServices []) ''operator''
        \<lparr>calls = [], world = demoQueue\<rparr>) =
      (contextSummaryOf (dateGetTime (demoServices [])) demoQueue, None)"
    by (simp add: buildWorkflowContext_def fetchOrders_def fetchWithAuthJson_def demoServices_def)
  from queue cmp names digest run show ?thesis by simp
qed


subsection \<open>Argument validation\<close>



































lemma map_sum_Inl: "map_sum id C r = Inl e \<longleftrightarrow> r = Inl e"
  by (cases r) auto







end
